theory Spec2Isabelle
  imports Main "HOL-Library.AList" "HOL-Library.Sublist"
begin

section \<open>Data model: cells, rows and data frames\<close>

text \<open>
  A Python \<open>str\<close> is a sequence of Unicode code points; a code point is a natural number.
  Column labels are the ASCII names the source writes as literals.
\<close>

type_synonym ustring = "nat list"
type_synonym label = string

definition ustr :: "string \<Rightarrow> ustring" where
  "ustr s = map of_char s"

text \<open>
  A pandas Timestamp, as far as the source reads it: \<open>.dt.year\<close> is the field
  \<open>ts_year\<close>. The remaining fields carry the rest of the instant.
\<close>

record timestamp =
  ts_year :: int
  ts_month :: nat
  ts_day :: nat
  ts_nanos :: nat

text \<open>
  The value of one cell of a data frame: a missing value (\<open>NaN\<close>), a text, a number,
  a parsed instant, or the missing instant \<open>NaT\<close> of a datetime column.
\<close>

datatype cell = NaN | Str ustring | Num int | Timestamp timestamp | NaT

fun isna :: "cell \<Rightarrow> bool" where
  "isna NaN = True"
| "isna NaT = True"
| "isna _ = False"

text \<open>
  A data frame has an ordered list of column labels and a list of rows; a row
  associates labels with cells, in column order. A label a row does not hold reads as
  missing.
\<close>

type_synonym row = "(label \<times> cell) list"

record dataframe =
  columns :: "label list"
  rows :: "row list"

definition cell_at :: "row \<Rightarrow> label \<Rightarrow> cell" where
  "cell_at r c = (case map_of r c of Some v \<Rightarrow> v | None \<Rightarrow> NaN)"

definition well_formed :: "dataframe \<Rightarrow> bool" where
  "well_formed df = (distinct (columns df) \<and> list_all (\<lambda>r. map fst r = columns df) (rows df))"

datatype error =
    KeyError "label list"
  | AttributeError
  | TypeError
  | ValueError
  | FileNotFoundError
  | ParserError

section \<open>The pandas operations the source calls\<close>

text \<open>\<open>df[c]\<close>: the column as a list of cells; an unknown label raises KeyError.\<close>

definition getitem :: "label \<Rightarrow> dataframe \<Rightarrow> error + cell list" where
  "getitem c df =
     (if c \<in> set (columns df) then Inr (map (\<lambda>r. cell_at r c) (rows df))
      else Inl (KeyError [c]))"

text \<open>
  \<open>df[c] = values\<close>: an existing column is overwritten where it stands, a new one is
  appended after the last column.
\<close>

definition setitem :: "label \<Rightarrow> cell list \<Rightarrow> dataframe \<Rightarrow> dataframe" where
  "setitem c vs df =
     \<lparr> columns = (if c \<in> set (columns df) then columns df else columns df @ [c]),
       rows = map2 (\<lambda>r v. AList.update c v r) (rows df) vs \<rparr>"

text \<open>
  \<open>df.dropna(subset=cs)\<close>: keeps, in order, the rows in which no column of \<open>cs\<close> is
  missing; labels of \<open>cs\<close> that are not columns raise KeyError.
\<close>

definition dropna :: "label list \<Rightarrow> dataframe \<Rightarrow> error + dataframe" where
  "dropna cs df =
     (case filter (\<lambda>c. c \<notin> set (columns df)) cs of
        [] \<Rightarrow> Inr (df\<lparr>rows := filter (\<lambda>r. list_all (\<lambda>c. \<not> isna (cell_at r c)) cs) (rows df)\<rparr>)
      | k # ks \<Rightarrow> Inl (KeyError (k # ks)))"

text \<open>
  \<open>pd.to_datetime(series, errors='coerce')\<close>. The conversion of one value is the
  library's; it may depend on the whole column (a format inferred from it), so the
  parser \<open>parse\<close> takes the column and the value. A value that does not parse becomes
  \<open>NaT\<close> instead of raising; a missing value stays missing.
\<close>

type_synonym parser = "cell list \<Rightarrow> cell \<Rightarrow> timestamp option"

definition to_datetime_cell :: "parser \<Rightarrow> cell list \<Rightarrow> cell \<Rightarrow> cell" where
  "to_datetime_cell parse col c =
     (if isna c then NaT
      else case parse col c of None \<Rightarrow> NaT | Some t \<Rightarrow> Timestamp t)"

definition to_datetime :: "parser \<Rightarrow> cell list \<Rightarrow> cell list" where
  "to_datetime parse col = map (to_datetime_cell parse col) col"

text \<open>\<open>series.dt.year\<close> on a datetime column: the year of an instant, missing for \<open>NaT\<close>.\<close>

fun dt_year_cell :: "cell \<Rightarrow> cell" where
  "dt_year_cell (Timestamp t) = Num (ts_year t)"
| "dt_year_cell _ = NaN"

definition dt_year :: "cell list \<Rightarrow> cell list" where
  "dt_year col = map dt_year_cell col"

text \<open>\<open>series.fillna(v)\<close>.\<close>

definition fillna :: "cell \<Rightarrow> cell list \<Rightarrow> cell list" where
  "fillna v col = map (\<lambda>c. if isna c then v else c) col"

text \<open>
  \<open>str.split()\<close> without arguments splits on runs of whitespace and yields no empty
  token. The whitespace code points are those of CPython's \<open>_PyUnicode_IsWhitespace\<close>.
\<close>

definition py_isspace :: "nat \<Rightarrow> bool" where
  "py_isspace c =
     ((9 \<le> c \<and> c \<le> 13) \<or> (28 \<le> c \<and> c \<le> 32) \<or> c = 133 \<or> c = 160 \<or> c = 5760
      \<or> (8192 \<le> c \<and> c \<le> 8202) \<or> c = 8232 \<or> c = 8233 \<or> c = 8239 \<or> c = 8287
      \<or> c = 12288)"

fun split_ws :: "ustring \<Rightarrow> ustring \<Rightarrow> ustring list" where
  "split_ws cur [] = (if cur = [] then [] else [cur])"
| "split_ws cur (c # cs) =
     (if py_isspace c then (if cur = [] then split_ws [] cs else cur # split_ws [] cs)
      else split_ws (cur @ [c]) cs)"

definition py_split :: "ustring \<Rightarrow> ustring list" where
  "py_split s = split_ws [] s"

text \<open>
  \<open>lambda x: len(x.split())\<close>: only a text has \<open>split\<close>; any other value raises
  AttributeError.
\<close>

fun word_count :: "cell \<Rightarrow> error + cell" where
  "word_count (Str s) = Inr (Num (int (length (py_split s))))"
| "word_count _ = Inl AttributeError"

text \<open>\<open>series.apply(f)\<close>: the first value on which \<open>f\<close> raises ends the call.\<close>

fun apply_series :: "(cell \<Rightarrow> error + cell) \<Rightarrow> cell list \<Rightarrow> error + cell list" where
  "apply_series f [] = Inr []"
| "apply_series f (x # xs) =
     (case f x of
        Inl e \<Rightarrow> Inl e
      | Inr y \<Rightarrow> (case apply_series f xs of Inl e \<Rightarrow> Inl e | Inr ys \<Rightarrow> Inr (y # ys)))"

text \<open>\<open>series.min()\<close> and \<open>series.max()\<close> of a numeric column skip missing values.\<close>

definition series_min :: "cell list \<Rightarrow> cell" where
  "series_min col = (case [y. Num y \<leftarrow> col] of [] \<Rightarrow> NaN | y # ys \<Rightarrow> Num (fold min ys y))"

definition series_max :: "cell list \<Rightarrow> cell" where
  "series_max col = (case [y. Num y \<leftarrow> col] of [] \<Rightarrow> NaN | y # ys \<Rightarrow> Num (fold max ys y))"

section \<open>The Data Cleaner\<close>

text \<open>
  The lines the cleaner prints, with the values it interpolates:
  the number of rows dropped for a missing title or publish_time, the shape of the
  final table, and the smallest and largest year.
\<close>

datatype diag =
    Dropped int
  | FinalShape nat nat
  | YearRange cell cell

text \<open>
  \<open>load_and_clean_data\<close> from the statement after \<open>read_csv\<close> to its \<open>return\<close>:
  \<^verbatim>\<open>
    original_size = len(df)
    df = df.dropna(subset=['title', 'publish_time'])
    print(f"Dropped {original_size - len(df)} rows with missing title or publish_time")
    df['publish_time'] = pd.to_datetime(df['publish_time'], errors='coerce')
    df = df.dropna(subset=['publish_time'])
    df['year'] = df['publish_time'].dt.year
    df['abstract_word_count'] = df['abstract'].fillna('').apply(lambda x: len(x.split()))
    print(f"Final dataset shape: {df.shape}")
    print(f"Year range: {df['year'].min()} - {df['year'].max()}")
    return df
  \<close>
\<close>

definition clean :: "parser \<Rightarrow> dataframe \<Rightarrow> error + (dataframe \<times> diag list)" where
  "clean parse df0 =
     (let original_size = length (rows df0) in
      case dropna [''title'', ''publish_time''] df0 of
        Inl e \<Rightarrow> Inl e
      | Inr df1 \<Rightarrow>
     (let d1 = Dropped (int original_size - int (length (rows df1))) in
      case getitem ''publish_time'' df1 of
        Inl e \<Rightarrow> Inl e
      | Inr pt \<Rightarrow>
     (let df2 = setitem ''publish_time'' (to_datetime parse pt) df1 in
      case dropna [''publish_time''] df2 of
        Inl e \<Rightarrow> Inl e
      | Inr df3 \<Rightarrow>
     (case getitem ''publish_time'' df3 of
        Inl e \<Rightarrow> Inl e
      | Inr pt3 \<Rightarrow>
     (let df4 = setitem ''year'' (dt_year pt3) df3 in
      case getitem ''abstract'' df4 of
        Inl e \<Rightarrow> Inl e
      | Inr ab \<Rightarrow>
     (case apply_series word_count (fillna (Str []) ab) of
        Inl e \<Rightarrow> Inl e
      | Inr wc \<Rightarrow>
     (let df5 = setitem ''abstract_word_count'' wc df4 in
      case getitem ''year'' df5 of
        Inl e \<Rightarrow> Inl e
      | Inr ys \<Rightarrow>
          Inr (df5,
               [d1,
                FinalShape (length (rows df5)) (length (columns df5)),
                YearRange (series_min ys) (series_max ys)]))))))))"

section \<open>Auxiliary definitions for stating the properties\<close>

text \<open>The text a cell holds; a cell that is not a text holds none.\<close>

definition text_of :: "cell \<Rightarrow> ustring" where
  "text_of c = (case c of Str s \<Rightarrow> s | _ \<Rightarrow> [])"

definition is_text_or_missing :: "cell \<Rightarrow> bool" where
  "is_text_or_missing c = (case c of Str s \<Rightarrow> True | NaN \<Rightarrow> True | NaT \<Rightarrow> True | _ \<Rightarrow> False)"

text \<open>
  The two drop passes of the cleaner, row by row. \<open>pass1\<close> keeps the rows with a title
  and a publish_time; \<open>pass2\<close> replaces publish_time by its conversion and keeps the rows
  where the conversion is not missing. Neither reads any other column.
\<close>

definition keep_pass1 :: "row \<Rightarrow> bool" where
  "keep_pass1 r = (\<not> isna (cell_at r ''title'') \<and> \<not> isna (cell_at r ''publish_time''))"

definition pass1 :: "dataframe \<Rightarrow> row list" where
  "pass1 df = filter keep_pass1 (rows df)"

definition publish_times :: "dataframe \<Rightarrow> cell list" where
  "publish_times df = map (\<lambda>r. cell_at r ''publish_time'') (pass1 df)"

definition parse_row :: "parser \<Rightarrow> cell list \<Rightarrow> row \<Rightarrow> row" where
  "parse_row parse col r =
     AList.update ''publish_time'' (to_datetime_cell parse col (cell_at r ''publish_time'')) r"

definition pass2 :: "parser \<Rightarrow> dataframe \<Rightarrow> row list" where
  "pass2 parse df =
     filter (\<lambda>r. \<not> isna (cell_at r ''publish_time''))
       (map (parse_row parse (publish_times df)) (pass1 df))"

text \<open>The two derived columns of one surviving row.\<close>

definition derive_row :: "row \<Rightarrow> row" where
  "derive_row r =
     AList.update ''abstract_word_count''
       (Num (int (length (py_split (text_of (cell_at r ''abstract''))))))
       (AList.update ''year'' (dt_year_cell (cell_at r ''publish_time'')) r)"

section \<open>A concrete parser and a concrete table\<close>

text \<open>
  One instance of the library's date parser, for evaluating the cleaner on concrete
  tables: it accepts exactly the texts \<open>YYYY-MM-DD\<close> that name a day of the calendar.
\<close>

definition digit :: "nat \<Rightarrow> nat option" where
  "digit c = (if 48 \<le> c \<and> c \<le> 57 then Some (c - 48) else None)"

fun digits_acc :: "nat \<Rightarrow> ustring \<Rightarrow> nat option" where
  "digits_acc a [] = Some a"
| "digits_acc a (c # cs) = (case digit c of None \<Rightarrow> None | Some d \<Rightarrow> digits_acc (10 * a + d) cs)"

definition leap_year :: "nat \<Rightarrow> bool" where
  "leap_year y = (y mod 4 = 0 \<and> (y mod 100 \<noteq> 0 \<or> y mod 400 = 0))"

definition days_in_month :: "nat \<Rightarrow> nat \<Rightarrow> nat" where
  "days_in_month y m =
     (if m = 2 then (if leap_year y then 29 else 28)
      else if m = 4 \<or> m = 6 \<or> m = 9 \<or> m = 11 then 30 else 31)"

definition iso_date :: "ustring \<Rightarrow> timestamp option" where
  "iso_date s =
     (if length s = 10 \<and> s ! 4 = 45 \<and> s ! 7 = 45 then
        (case (digits_acc 0 (take 4 s), digits_acc 0 (take 2 (drop 5 s)), digits_acc 0 (drop 8 s)) of
           (Some y, Some m, Some d) \<Rightarrow>
             if 1 \<le> m \<and> m \<le> 12 \<and> 1 \<le> d \<and> d \<le> days_in_month y m
             then Some \<lparr>ts_year = int y, ts_month = m, ts_day = d, ts_nanos = 0\<rparr>
             else None
         | _ \<Rightarrow> None)
      else None)"

definition iso_parser :: parser where
  "iso_parser col c = (case c of Str s \<Rightarrow> iso_date s | _ \<Rightarrow> None)"

text \<open>
  The table of the specification's scenario: a complete row, a row without title, and a
  row whose publish_time is not a date.
\<close>

definition scenario_columns :: "label list" where
  "scenario_columns = [''title'', ''publish_time'', ''abstract'', ''journal'', ''source_x'']"

definition scenario_raw :: dataframe where
  "scenario_raw =
     \<lparr> columns = scenario_columns,
       rows =
        [[(''title'', Str (ustr ''A'')), (''publish_time'', Str (ustr ''2020-01-15'')),
          (''abstract'', Str (ustr ''x y z'')), (''journal'', NaN), (''source_x'', NaN)],
         [(''title'', NaN), (''publish_time'', Str (ustr ''2019-05-01'')),
          (''abstract'', NaN), (''journal'', NaN), (''source_x'', NaN)],
         [(''title'', Str (ustr ''B'')), (''publish_time'', Str (ustr ''bad-date'')),
          (''abstract'', NaN), (''journal'', NaN), (''source_x'', NaN)]] \<rparr>"

definition scenario_row :: row where
  "scenario_row =
     [(''title'', Str (ustr ''A'')),
      (''publish_time'', Timestamp \<lparr>ts_year = 2020, ts_month = 1, ts_day = 15, ts_nanos = 0\<rparr>),
      (''abstract'', Str (ustr ''x y z'')), (''journal'', NaN), (''source_x'', NaN),
      (''year'', Num 2020), (''abstract_word_count'', Num 3)]"

definition scenario_clean :: dataframe where
  "scenario_clean =
     \<lparr> columns = scenario_columns @ [''year'', ''abstract_word_count''],
       rows = [scenario_row] \<rparr>"

definition scenario_log :: "diag list" where
  "scenario_log = [Dropped 1, FinalShape 1 7, YearRange (Num 2020) (Num 2020)]"

text \<open>
  The number of whitespace-delimited tokens of a text, counted directly: a token starts
  at every non-whitespace code point that is the first of the text or follows a
  whitespace code point. The flag tells whether the previous code point was inside a
  token.
\<close>

fun count_tokens :: "bool \<Rightarrow> ustring \<Rightarrow> nat" where
  "count_tokens inside [] = 0"
| "count_tokens inside (c # cs) =
     (if py_isspace c then count_tokens False cs
      else (if inside then 0 else 1) + count_tokens True cs)"

text \<open>
  A table whose file already has a column named \<open>year\<close>, and what the cleaner makes
  of it.
\<close>

definition year_raw :: dataframe where
  "year_raw =
     \<lparr> columns = [''title'', ''publish_time'', ''abstract'', ''year''],
       rows =
        [[(''title'', Str (ustr ''A'')), (''publish_time'', Str (ustr ''2020-01-15'')),
          (''abstract'', Str (ustr ''x'')), (''year'', Str (ustr ''1999''))]] \<rparr>"

definition year_clean :: dataframe where
  "year_clean =
     \<lparr> columns = [''title'', ''publish_time'', ''abstract'', ''year'', ''abstract_word_count''],
       rows =
        [[(''title'', Str (ustr ''A'')),
          (''publish_time'', Timestamp \<lparr>ts_year = 2020, ts_month = 1, ts_day = 15, ts_nanos = 0\<rparr>),
          (''abstract'', Str (ustr ''x'')), (''year'', Num 2020),
          (''abstract_word_count'', Num 1)]] \<rparr>"

definition year_log :: "diag list" where
  "year_log = [Dropped 0, FinalShape 1 5, YearRange (Num 2020) (Num 2020)]"

section \<open>The year filter\<close>

text \<open>
  A comparison of a column with an integer is taken value by value: a number compares, a
  missing number compares false, a text or an instant raises TypeError.
\<close>

fun elementwise :: "('a \<Rightarrow> error + 'b) \<Rightarrow> 'a list \<Rightarrow> error + 'b list" where
  "elementwise f [] = Inr []"
| "elementwise f (x # xs) =
     (case f x of
        Inl e \<Rightarrow> Inl e
      | Inr y \<Rightarrow> (case elementwise f xs of Inl e \<Rightarrow> Inl e | Inr ys \<Rightarrow> Inr (y # ys)))"

fun ge_cell :: "int \<Rightarrow> cell \<Rightarrow> error + bool" where
  "ge_cell k (Num y) = Inr (k \<le> y)"
| "ge_cell k NaN = Inr False"
| "ge_cell k _ = Inl TypeError"

fun le_cell :: "int \<Rightarrow> cell \<Rightarrow> error + bool" where
  "le_cell k (Num y) = Inr (y \<le> k)"
| "le_cell k NaN = Inr False"
| "le_cell k _ = Inl TypeError"

text \<open>\<open>df[mask]\<close>: the rows at which the mask is true, in order.\<close>

definition boolean_index :: "row list \<Rightarrow> bool list \<Rightarrow> row list" where
  "boolean_index rs flags = map fst (filter snd (zip rs flags))"

text \<open>
  The filter every view applies, written five times in the source:
  \<^verbatim>\<open>df[(df['year'] >= year_range[0]) & (df['year'] <= year_range[1])]\<close>
\<close>

definition filter_by_year :: "dataframe \<Rightarrow> int \<Rightarrow> int \<Rightarrow> error + dataframe" where
  "filter_by_year df min_year max_year =
     (case getitem ''year'' df of
        Inl e \<Rightarrow> Inl e
      | Inr ys \<Rightarrow>
     (case elementwise (ge_cell min_year) ys of
        Inl e \<Rightarrow> Inl e
      | Inr m1 \<Rightarrow>
     (case getitem ''year'' df of
        Inl e \<Rightarrow> Inl e
      | Inr ys' \<Rightarrow>
     (case elementwise (le_cell max_year) ys' of
        Inl e \<Rightarrow> Inl e
      | Inr m2 \<Rightarrow>
          Inr (df\<lparr>rows := boolean_index (rows df) (map2 (\<and>) m1 m2)\<rparr>)))))"

text \<open>
  The bounds of the year control in \<open>main\<close>:
  \<^verbatim>\<open>min_year, max_year = int(df['year'].min()), int(df['year'].max())\<close>
  \<open>int\<close> of a missing number raises ValueError.
\<close>

definition year_span :: "dataframe \<Rightarrow> error + (int \<times> int)" where
  "year_span df =
     (case getitem ''year'' df of
        Inl e \<Rightarrow> Inl e
      | Inr ys \<Rightarrow>
     (case series_min ys of
        Num a \<Rightarrow> (case series_max ys of Num b \<Rightarrow> Inr (a, b) | _ \<Rightarrow> Inl ValueError)
      | _ \<Rightarrow> Inl ValueError))"

text \<open>The rows a year range selects, for stating what the filter returns.\<close>

definition in_year_range :: "int \<Rightarrow> int \<Rightarrow> row \<Rightarrow> bool" where
  "in_year_range lo hi r = (case cell_at r ''year'' of Num y \<Rightarrow> lo \<le> y \<and> y \<le> hi | _ \<Rightarrow> False)"

section \<open>The views\<close>

text \<open>
  \<open>series.value_counts()\<close> with its defaults first counts every distinct value that
  is not missing (\<open>dropna=True\<close>); the values stand in the table in the order of
  their first occurrence.
\<close>

fun count_into :: "(cell \<times> nat) list \<Rightarrow> cell list \<Rightarrow> (cell \<times> nat) list" where
  "count_into tbl [] = tbl"
| "count_into tbl (x # xs) =
     count_into (case map_of tbl x of
                   None \<Rightarrow> tbl @ [(x, 1)]
                 | Some n \<Rightarrow> AList.update x (n + 1) tbl) xs"

text \<open>
  Modelled from the spec: the order in which \<open>value_counts\<close> leaves groups of equal
  count. The library sorts the counts in descending order with its own sort, which
  is not part of the repository; the specification says that ties keep the order of
  first occurrence, so the sort is taken to be stable.
\<close>

definition value_counts :: "cell list \<Rightarrow> (cell \<times> nat) list" where
  "value_counts col =
     sort_key (\<lambda>p. - int (snd p)) (count_into [] (filter (\<lambda>c. \<not> isna c) col))"

text \<open>
  \<open>plot_top_journals\<close> and \<open>plot_source_distribution\<close>, up to the data they hand to the
  plotting library:
  \<^verbatim>\<open>top_journals = filtered['journal'].value_counts().head(10)\<close>
  \<^verbatim>\<open>source_counts = filtered['source_x'].value_counts()\<close>
\<close>

definition plot_top_journals :: "dataframe \<Rightarrow> int \<times> int \<Rightarrow> error + (cell \<times> nat) list" where
  "plot_top_journals df year_range =
     (case filter_by_year df (fst year_range) (snd year_range) of
        Inl e \<Rightarrow> Inl e
      | Inr filtered \<Rightarrow>
     (case getitem ''journal'' filtered of
        Inl e \<Rightarrow> Inl e
      | Inr js \<Rightarrow> Inr (take 10 (value_counts js))))"

definition plot_source_distribution :: "dataframe \<Rightarrow> int \<times> int \<Rightarrow> error + (cell \<times> nat) list" where
  "plot_source_distribution df year_range =
     (case filter_by_year df (fst year_range) (snd year_range) of
        Inl e \<Rightarrow> Inl e
      | Inr filtered \<Rightarrow>
     (case getitem ''source_x'' filtered of
        Inl e \<Rightarrow> Inl e
      | Inr ss \<Rightarrow> Inr (value_counts ss)))"

text \<open>
  \<open>series.mean()\<close> of a numeric column skips missing values; of no value at all it is
  NaN. A mean that exists is kept as the exact quotient of the sum and the number of
  values. A column with a text or an instant raises TypeError.
\<close>

datatype pyfloat = FNaN | Ratio int nat

fun numeric :: "cell \<Rightarrow> error + int option" where
  "numeric (Num n) = Inr (Some n)"
| "numeric NaN = Inr None"
| "numeric _ = Inl TypeError"

definition series_mean :: "cell list \<Rightarrow> error + pyfloat" where
  "series_mean col =
     (case elementwise numeric col of
        Inl e \<Rightarrow> Inl e
      | Inr vs \<Rightarrow>
         (let ns = [n. Some n \<leftarrow> vs] in
          if ns = [] then Inr FNaN else Inr (Ratio (sum_list ns) (length ns))))"

text \<open>A year cell a comparison accepts: a number or a missing number.\<close>

definition year_is_number :: "row \<Rightarrow> bool" where
  "year_is_number r = (case cell_at r ''year'' of Num y \<Rightarrow> True | NaN \<Rightarrow> True | _ \<Rightarrow> False)"



section \<open>The Dataset Fetcher and the loader\<close>

text \<open>
  The state outside the process: the files of the working directory, as names with
  their contents, and the calls made to the remote dataset host, in order.
\<close>

type_synonym bytes = "nat list"

datatype remote_call = Authenticate | DownloadFiles string

record world =
  files :: "(string \<times> bytes) list"
  remote_calls :: "remote_call list"

text \<open>\<open>os.path.exists(name)\<close>, and writing a file with \<open>open(name, 'wb')\<close>.\<close>

definition path_exists :: "world \<Rightarrow> string \<Rightarrow> bool" where
  "path_exists w name = (map_of (files w) name \<noteq> None)"

definition write_file :: "string \<Rightarrow> bytes \<Rightarrow> world \<Rightarrow> world" where
  "write_file name content w = w\<lparr>files := AList.update name content (files w)\<rparr>"

definition call_remote :: "remote_call \<Rightarrow> world \<Rightarrow> world" where
  "call_remote c w = w\<lparr>remote_calls := remote_calls w @ [c]\<rparr>"

text \<open>
  What the libraries and the remote host do, as far as the source depends on it:
  whether the download script can be started, whether the Kaggle package imports,
  whether the credentials authenticate, what the download leaves in the temporary
  directory (nothing if it raises; otherwise the files in the order \<open>glob\<close> lists them,
  each an archive with its members or not an archive at all), whether pandas imports
  in the script, how the CSV reader reads a file (whole, and its first rows), how
  dates are parsed, whether drawing a bar chart or a word cloud of a text with words
  raises, and how a value that is not a text is written as a text.
\<close>

type_synonym archive = "(string \<times> bytes) list"

record platform =
  can_run_script :: bool
  kaggle_installed :: bool
  credentials_ok :: bool
  downloaded :: "(string \<times> archive option) list option"
  pandas_installed :: bool
  read_csv :: "bytes \<Rightarrow> error + dataframe"
  read_csv_head :: "bytes \<Rightarrow> error + dataframe"
  parse_datetime :: parser
  barplot :: "(cell \<times> nat) list \<Rightarrow> error option"
  wordcloud :: "ustring \<Rightarrow> error option"
  format_value :: "cell \<Rightarrow> ustring"

text \<open>
  \<open>download_metadata_only\<close> of \<open>download_metadata.py\<close>. Every exception inside the
  temporary directory is caught and makes the function return False; the temporary
  directory is gone on every path. The lines the function prints are left out.
\<close>

definition download_metadata_only :: "platform \<Rightarrow> world \<Rightarrow> bool \<times> world" where
  "download_metadata_only p w =
     (if path_exists w ''metadata.csv'' then (True, w)
      else
        let w1 = call_remote Authenticate w in
        if \<not> credentials_ok p then (False, w1)
        else
          let w2 = call_remote (DownloadFiles ''allen-institute-for-ai/CORD-19-research-challenge'') w1 in
          case downloaded p of
            None \<Rightarrow> (False, w2)
          | Some tmp \<Rightarrow>
             (case filter (\<lambda>f. suffix ''.zip'' (fst f)) tmp of
                [] \<Rightarrow> (False, w2)
              | zip_path # _ \<Rightarrow>
                 (case snd zip_path of
                    None \<Rightarrow> (False, w2)
                  | Some file_list \<Rightarrow>
                     (case filter (\<lambda>f. suffix ''metadata.csv'' (fst f)) file_list of
                        [] \<Rightarrow> (False, w2)
                      | metadata_in_zip # _ \<Rightarrow>
                         (let w3 = write_file ''metadata.csv'' (snd metadata_in_zip) w2 in
                          if path_exists w3 ''metadata.csv'' then
                            (if pandas_installed p then
                               (case read_csv_head p (snd metadata_in_zip) of
                                  Inl e \<Rightarrow> (False, w3)
                                | Inr df \<Rightarrow> (True, w3))
                             else (True, w3))
                          else (False, w3))))))"

text \<open>
  The script run as a process. Without the Kaggle package the import fails and the
  script exits with status 1. Importing the package authenticates; without valid
  credentials the process ends there, with status 1, before \<open>main\<close> is reached.
  Otherwise \<open>main\<close> runs the download and the process ends with status 0, whether
  or not the download succeeded.
\<close>

definition run_download_script :: "platform \<Rightarrow> world \<Rightarrow> int \<times> world" where
  "run_download_script p w =
     (if \<not> kaggle_installed p then (1, w)
      else
        let w0 = call_remote Authenticate w in
        if \<not> credentials_ok p then (1, w0)
        else let (success, w') = download_metadata_only p w0 in (0, w'))"

text \<open>
  \<open>download_dataset\<close> of \<open>utils.py\<close>: True if the file exists; otherwise it runs the
  script and returns whether the status is 0. A script that cannot be started is False.
\<close>

definition download_dataset :: "platform \<Rightarrow> world \<Rightarrow> bool \<times> world" where
  "download_dataset p w =
     (if \<not> path_exists w ''metadata.csv'' then
        (if \<not> can_run_script p then (False, w)
         else let (returncode, w') = run_download_script p w in
              if returncode = 0 then (True, w') else (False, w'))
      else (True, w))"

text \<open>
  \<open>load_and_clean_data\<close>: \<open>None\<close> when the download reports failure, an exception
  when the file cannot be read or the cleaning raises, the cleaned table otherwise.
\<close>

definition load_and_clean_data ::
    "platform \<Rightarrow> world \<Rightarrow> (error + (dataframe \<times> diag list) option) \<times> world" where
  "load_and_clean_data p w =
     (let (ok, w') = download_dataset p w in
      if \<not> ok then (Inr None, w')
      else
        case map_of (files w') ''metadata.csv'' of
          None \<Rightarrow> (Inl FileNotFoundError, w')
        | Some content \<Rightarrow>
           (case read_csv p content of
              Inl e \<Rightarrow> (Inl e, w')
            | Inr df \<Rightarrow>
               (case clean (parse_datetime p) df of
                  Inl e \<Rightarrow> (Inl e, w')
                | Inr result \<Rightarrow> (Inr (Some result), w'))))"

text \<open>
  A platform and two worlds for evaluating the fetcher: the remote archive holds the
  scenario table under \<open>CORD-19/metadata.csv\<close>, and no drawing raises; the working
  directory is empty at first and holds the file after the first load.
\<close>

definition scenario_bytes :: bytes where
  "scenario_bytes = ustr ''title,publish_time,abstract,journal,source_x''"

definition scenario_platform :: platform where
  "scenario_platform =
     \<lparr> can_run_script = True, kaggle_installed = True, credentials_ok = True,
       downloaded = Some [(''CORD-19-research-challenge.zip'',
                           Some [(''CORD-19/readme.txt'', []),
                                 (''CORD-19/metadata.csv'', scenario_bytes)])],
       pandas_installed = True,
       read_csv = (\<lambda>b. if b = scenario_bytes then Inr scenario_raw else Inl ParserError),
       read_csv_head = (\<lambda>b. if b = scenario_bytes then Inr scenario_raw else Inl ParserError),
       parse_datetime = iso_parser,
       barplot = (\<lambda>d. None), wordcloud = (\<lambda>t. None), format_value = (\<lambda>c. []) \<rparr>"

definition empty_world :: world where
  "empty_world = \<lparr> files = [], remote_calls = [] \<rparr>"

definition fetched_world :: world where
  "fetched_world =
     \<lparr> files = [(''metadata.csv'', scenario_bytes)],
       remote_calls = [Authenticate, Authenticate,
                       DownloadFiles ''allen-institute-for-ai/CORD-19-research-challenge''] \<rparr>"

section \<open>The application\<close>

text \<open>
  \<open>plot_publications_per_year\<close>, up to the data it hands to the plotting library:
  \<^verbatim>\<open>yearly = df[...]['year'].value_counts().sort_index()\<close>
  The counts are put in ascending order of the year; the filter has compared every
  year with an integer, so the index holds numbers.
\<close>

fun index_key :: "cell \<Rightarrow> error + int" where
  "index_key (Num y) = Inr y"
| "index_key _ = Inl TypeError"

definition sort_index :: "(cell \<times> nat) list \<Rightarrow> error + (cell \<times> nat) list" where
  "sort_index counts =
     (case elementwise (\<lambda>p. index_key (fst p)) counts of
        Inl e \<Rightarrow> Inl e
      | Inr ks \<Rightarrow> Inr (map snd (sort_key fst (zip ks counts))))"

definition plot_publications_per_year :: "dataframe \<Rightarrow> int \<times> int \<Rightarrow> error + (cell \<times> nat) list" where
  "plot_publications_per_year df year_range =
     (case filter_by_year df (fst year_range) (snd year_range) of
        Inl e \<Rightarrow> Inl e
      | Inr filtered \<Rightarrow>
     (case getitem ''year'' filtered of
        Inl e \<Rightarrow> Inl e
      | Inr ys \<Rightarrow> sort_index (value_counts ys)))"

text \<open>
  \<open>plot_wordcloud\<close>:
  \<^verbatim>\<open>
    text = ' '.join(filtered['title'].dropna().astype(str))
    wc = WordCloud(width=800, height=400, background_color='white').generate(text)
  \<close>
  The word-cloud library raises ValueError when the text has no word, as the empty
  text has none; what it does with any other text is the platform's.
\<close>

fun join_space :: "ustring list \<Rightarrow> ustring" where
  "join_space [] = []"
| "join_space [x] = x"
| "join_space (x # y # ys) = x @ [32] @ join_space (y # ys)"

definition astype_str :: "platform \<Rightarrow> cell \<Rightarrow> ustring" where
  "astype_str p c = (case c of Str s \<Rightarrow> s | _ \<Rightarrow> format_value p c)"

definition generate :: "platform \<Rightarrow> ustring \<Rightarrow> error option" where
  "generate p text = (if text = [] then Some ValueError else wordcloud p text)"

definition plot_wordcloud :: "platform \<Rightarrow> dataframe \<Rightarrow> int \<times> int \<Rightarrow> error + ustring" where
  "plot_wordcloud p df year_range =
     (case filter_by_year df (fst year_range) (snd year_range) of
        Inl e \<Rightarrow> Inl e
      | Inr filtered \<Rightarrow>
     (case getitem ''title'' filtered of
        Inl e \<Rightarrow> Inl e
      | Inr titles \<Rightarrow>
         (let text = join_space (map (astype_str p) (filter (\<lambda>c. \<not> isna c) titles)) in
          case generate p text of
            Some e \<Rightarrow> Inl e
          | None \<Rightarrow> Inr text)))"

text \<open>A bar chart is drawn from the data of a view; the drawing itself can raise.\<close>

definition draw_bars :: "platform \<Rightarrow> error + (cell \<times> nat) list \<Rightarrow> error + (cell \<times> nat) list" where
  "draw_bars p view =
     (case view of
        Inl e \<Rightarrow> Inl e
      | Inr counts \<Rightarrow> (case barplot p counts of Some e \<Rightarrow> Inl e | None \<Rightarrow> Inr counts))"

text \<open>
  What the page shows: the four charts, the sample of rows, the two lines of the
  summary statistics, or an error message.
\<close>

datatype panel =
    YearChart "(cell \<times> nat) list"
  | JournalChart "(cell \<times> nat) list"
  | WordCloudImage ustring
  | SourceChart "(cell \<times> nat) list"
  | SampleData "row list"
  | TotalPapers nat
  | AverageWordCount pyfloat
  | ErrorMessage error
  | LoadFailed

text \<open>
  The body of \<open>main\<close> from the first chart to the summary statistics, inside its
  \<open>try\<close>: the views run one after the other, and the first exception ends them;
  the handler then shows the error, below what the page already shows.
  \<^verbatim>\<open>
    plot_publications_per_year(df, year_range)
    plot_top_journals(df, year_range)
    plot_wordcloud(df, year_range)
    plot_source_distribution(df, year_range)
    filtered_data = df[(df['year'] >= year_range[0]) & (df['year'] <= year_range[1])]
    st.dataframe(filtered_data.head(20))
    st.write(f"Total papers in selected range: {len(filtered_data)}")
    st.write(f"Average abstract word count: {filtered_data['abstract_word_count'].mean():.1f}")
  except Exception as e:
    st.error(f"An error occurred: {str(e)}")
  \<close>
  The format \<open>.1f\<close> prints a NaN as \<open>nan\<close>.
\<close>

definition show_views :: "platform \<Rightarrow> dataframe \<Rightarrow> int \<times> int \<Rightarrow> panel list" where
  "show_views p df year_range =
     (case draw_bars p (plot_publications_per_year df year_range) of
        Inl e \<Rightarrow> [ErrorMessage e]
      | Inr yearly \<Rightarrow>
     (case draw_bars p (plot_top_journals df year_range) of
        Inl e \<Rightarrow> [YearChart yearly, ErrorMessage e]
      | Inr top_journals \<Rightarrow>
     (case plot_wordcloud p df year_range of
        Inl e \<Rightarrow> [YearChart yearly, JournalChart top_journals, ErrorMessage e]
      | Inr text \<Rightarrow>
     (case draw_bars p (plot_source_distribution df year_range) of
        Inl e \<Rightarrow> [YearChart yearly, JournalChart top_journals, WordCloudImage text, ErrorMessage e]
      | Inr source_counts \<Rightarrow>
     (let charts = [YearChart yearly, JournalChart top_journals, WordCloudImage text,
                    SourceChart source_counts] in
      case filter_by_year df (fst year_range) (snd year_range) of
        Inl e \<Rightarrow> charts @ [ErrorMessage e]
      | Inr filtered_data \<Rightarrow>
     (let shown = charts @ [SampleData (take 20 (rows filtered_data)),
                            TotalPapers (length (rows filtered_data))] in
      case getitem ''abstract_word_count'' filtered_data of
        Inl e \<Rightarrow> shown @ [ErrorMessage e]
      | Inr wc \<Rightarrow>
     (case series_mean wc of
        Inl e \<Rightarrow> shown @ [ErrorMessage e]
      | Inr m \<Rightarrow> shown @ [AverageWordCount m])))))))"

text \<open>
  \<open>main\<close>: the table is loaded, the bounds of the year control are the smallest and
  the largest year, and \<open>slider\<close> is the range the user selects between them. A load
  that returns \<open>None\<close> shows the load failure; every exception shows an error.
\<close>

definition main :: "platform \<Rightarrow> (int \<Rightarrow> int \<Rightarrow> int \<times> int) \<Rightarrow> world \<Rightarrow> panel list \<times> world" where
  "main p slider w =
     (let (loaded, w') = load_and_clean_data p w in
      case loaded of
        Inl e \<Rightarrow> ([ErrorMessage e], w')
      | Inr None \<Rightarrow> ([LoadFailed], w')
      | Inr (Some result) \<Rightarrow>
         (case year_span (fst result) of
            Inl e \<Rightarrow> ([ErrorMessage e], w')
          | Inr span \<Rightarrow> (show_views p (fst result) (slider (fst span) (snd span)), w')))"

section \<open>A second concrete table\<close>

text \<open>
  Five papers of the years 2019 and 2021; one has no abstract and no journal, one has
  an abstract of blanks and no source.
\<close>

definition paper :: "cell \<Rightarrow> cell \<Rightarrow> cell \<Rightarrow> cell \<Rightarrow> cell \<Rightarrow> row" where
  "paper t p a j s =
     [(''title'', t), (''publish_time'', p), (''abstract'', a), (''journal'', j), (''source_x'', s)]"

definition day :: "int \<Rightarrow> nat \<Rightarrow> nat \<Rightarrow> cell" where
  "day y m d = Timestamp \<lparr>ts_year = y, ts_month = m, ts_day = d, ts_nanos = 0\<rparr>"

definition papers_raw :: dataframe where
  "papers_raw =
     \<lparr> columns = scenario_columns,
       rows =
        [paper (Str (ustr ''P1'')) (Str (ustr ''2019-03-01'')) (Str (ustr ''a b''))
           (Str (ustr ''Nature'')) (Str (ustr ''PMC'')),
         paper (Str (ustr ''P2'')) (Str (ustr ''2021-07-10'')) NaN NaN (Str (ustr ''WHO'')),
         paper (Str (ustr ''P3'')) (Str (ustr ''2019-11-30'')) (Str (ustr ''   ''))
           (Str (ustr ''Lancet'')) NaN,
         paper (Str (ustr ''P4'')) (Str (ustr ''2021-01-02'')) (Str (ustr ''one''))
           (Str (ustr ''Lancet'')) (Str (ustr ''PMC'')),
         paper (Str (ustr ''P5'')) (Str (ustr ''2021-05-05'')) (Str (ustr ''w x y z''))
           (Str (ustr ''Nature'')) (Str (ustr ''PMC''))] \<rparr>"

definition cleaned_paper :: "row \<Rightarrow> int \<Rightarrow> int \<Rightarrow> row" where
  "cleaned_paper r y n = r @ [(''year'', Num y), (''abstract_word_count'', Num n)]"

definition paper1 :: row where
  "paper1 = cleaned_paper (paper (Str (ustr ''P1'')) (day 2019 3 1) (Str (ustr ''a b''))
              (Str (ustr ''Nature'')) (Str (ustr ''PMC''))) 2019 2"

definition paper2 :: row where
  "paper2 = cleaned_paper (paper (Str (ustr ''P2'')) (day 2021 7 10) NaN NaN
              (Str (ustr ''WHO''))) 2021 0"

definition paper3 :: row where
  "paper3 = cleaned_paper (paper (Str (ustr ''P3'')) (day 2019 11 30) (Str (ustr ''   ''))
              (Str (ustr ''Lancet'')) NaN) 2019 0"

definition paper4 :: row where
  "paper4 = cleaned_paper (paper (Str (ustr ''P4'')) (day 2021 1 2) (Str (ustr ''one''))
              (Str (ustr ''Lancet'')) (Str (ustr ''PMC''))) 2021 1"

definition paper5 :: row where
  "paper5 = cleaned_paper (paper (Str (ustr ''P5'')) (day 2021 5 5) (Str (ustr ''w x y z''))
              (Str (ustr ''Nature'')) (Str (ustr ''PMC''))) 2021 4"

definition papers_clean :: dataframe where
  "papers_clean =
     \<lparr> columns = scenario_columns @ [''year'', ''abstract_word_count''],
       rows = [paper1, paper2, paper3, paper4, paper5] \<rparr>"

definition papers_log :: "diag list" where
  "papers_log = [Dropped 0, FinalShape 5 7, YearRange (Num 2019) (Num 2021)]"






section \<open>Facts about the pandas operations\<close>

lemma dropna_Inr:
  "dropna cs df = Inr df' \<longleftrightarrow>
     set cs \<subseteq> set (columns df) \<and>
     df' = df\<lparr>rows := filter (\<lambda>r. list_all (\<lambda>c. \<not> isna (cell_at r c)) cs) (rows df)\<rparr>"
proof (cases "filter (\<lambda>c. c \<notin> set (columns df)) cs")
  case Nil
  then show ?thesis by (auto simp: dropna_def filter_empty_conv)
next
  case (Cons k ks)
  then have "k \<in> set (filter (\<lambda>c. c \<notin> set (columns df)) cs)" by simp
  then have "\<not> set cs \<subseteq> set (columns df)" by auto
  with Cons show ?thesis by (simp add: dropna_def)
qed

lemma getitem_Inr:
  "getitem c df = Inr col \<longleftrightarrow> c \<in> set (columns df) \<and> col = map (\<lambda>r. cell_at r c) (rows df)"
  by (auto simp: getitem_def)

lemma cell_at_update:
  "cell_at (AList.update k v r) c = (if c = k then v else cell_at r c)"
  by (simp add: cell_at_def update_conv')

lemma map2_map_same:
  "map2 g xs (map f xs) = map (\<lambda>x. g x (f x)) xs"
  by (induction xs) auto

lemma rows_setitem_map:
  "rows (setitem c (map f (rows df)) df) = map (\<lambda>r. AList.update c (f r) r) (rows df)"
  by (simp add: setitem_def map2_map_same)

lemma columns_setitem:
  "columns (setitem c vs df) = (if c \<in> set (columns df) then columns df else columns df @ [c])"
  by (simp add: setitem_def)

lemma apply_series_Inr:
  "apply_series f xs = Inr ys \<Longrightarrow> list_all2 (\<lambda>x y. f x = Inr y) xs ys"
proof (induction xs arbitrary: ys)
  case Nil
  then show ?case by auto
next
  case (Cons x xs)
  then show ?case by (cases ys) (auto split: sum.splits)
qed

lemma apply_series_total:
  "list_all (\<lambda>x. f x = Inr (g x)) xs \<Longrightarrow> apply_series f xs = Inr (map g xs)"
  by (induction xs) auto

lemma word_count_fill:
  "word_count (if isna c then Str [] else c) = Inr y \<longleftrightarrow>
     is_text_or_missing c \<and> y = Num (int (length (py_split (text_of c))))"
  by (cases c) (auto simp: text_of_def is_text_or_missing_def)

lemma list_all2_fun:
  "list_all2 (\<lambda>x y. P x \<and> y = g x) xs ys \<Longrightarrow> ys = map g xs \<and> list_all P xs"
  by (induction xs ys rule: list_all2_induct) auto

section \<open>What the cleaner computes\<close>

lemma cleanE:
  assumes "clean parse df0 = Inr (out, log)"
  obtains df1 pt df3 pt3 ab wc ys where
    "dropna [''title'', ''publish_time''] df0 = Inr df1"
    "getitem ''publish_time'' df1 = Inr pt"
    "dropna [''publish_time''] (setitem ''publish_time'' (to_datetime parse pt) df1) = Inr df3"
    "getitem ''publish_time'' df3 = Inr pt3"
    "getitem ''abstract'' (setitem ''year'' (dt_year pt3) df3) = Inr ab"
    "apply_series word_count (fillna (Str []) ab) = Inr wc"
    "out = setitem ''abstract_word_count'' wc (setitem ''year'' (dt_year pt3) df3)"
    "getitem ''year'' out = Inr ys"
    "log = [Dropped (int (length (rows df0)) - int (length (rows df1))),
            FinalShape (length (rows out)) (length (columns out)),
            YearRange (series_min ys) (series_max ys)]"
  using assms unfolding clean_def Let_def
  by (auto split: sum.splits)

text \<open>
  The rows of the cleaned table are the rows that survive the two passes, each with its
  two derived cells; the cleaner returns only if every surviving abstract is a text or
  missing.
\<close>

lemma clean_rows:
  assumes "clean parse df0 = Inr (out, log)"
  shows "rows out = map derive_row (pass2 parse df0)"
    and "list_all (\<lambda>r. is_text_or_missing (cell_at r ''abstract'')) (pass2 parse df0)"
    and "log = [Dropped (int (length (rows df0)) - int (length (pass1 df0))),
            FinalShape (length (rows out)) (length (columns out)),
            YearRange (series_min (map (\<lambda>r. cell_at r ''year'') (rows out)))
                      (series_max (map (\<lambda>r. cell_at r ''year'') (rows out)))]"
proof -
  from assms obtain df1 pt df3 pt3 ab wc ys where
    d1: "dropna [''title'', ''publish_time''] df0 = Inr df1" and
    g1: "getitem ''publish_time'' df1 = Inr pt" and
    d3: "dropna [''publish_time''] (setitem ''publish_time'' (to_datetime parse pt) df1) = Inr df3" and
    g3: "getitem ''publish_time'' df3 = Inr pt3" and
    ga: "getitem ''abstract'' (setitem ''year'' (dt_year pt3) df3) = Inr ab" and
    ap: "apply_series word_count (fillna (Str []) ab) = Inr wc" and
    out: "out = setitem ''abstract_word_count'' wc (setitem ''year'' (dt_year pt3) df3)" and
    gy: "getitem ''year'' out = Inr ys" and
    lg: "log = [Dropped (int (length (rows df0)) - int (length (rows df1))),
            FinalShape (length (rows out)) (length (columns out)),
            YearRange (series_min ys) (series_max ys)]"
    by (rule cleanE)
  have r1: "rows df1 = pass1 df0"
    using d1 by (simp add: dropna_Inr pass1_def keep_pass1_def[abs_def])
  have pt: "pt = map (\<lambda>r. cell_at r ''publish_time'') (rows df1)"
    using g1 by (simp add: getitem_Inr)
  have td: "to_datetime parse pt =
      map (\<lambda>r. to_datetime_cell parse pt (cell_at r ''publish_time'')) (rows df1)"
    by (simp add: to_datetime_def pt)
  have r2: "rows (setitem ''publish_time'' (to_datetime parse pt) df1) =
      map (parse_row parse pt) (rows df1)"
    unfolding td rows_setitem_map by (simp add: parse_row_def[abs_def])
  have r3: "rows df3 = pass2 parse df0"
    using d3 unfolding dropna_Inr
    by (simp add: r2 pass2_def publish_times_def) (simp add: pt r1)
  have pt3: "dt_year pt3 = map (\<lambda>r. dt_year_cell (cell_at r ''publish_time'')) (rows df3)"
    using g3 by (simp add: getitem_Inr dt_year_def)
  let ?df4 = "setitem ''year'' (dt_year pt3) df3"
  have r4: "rows ?df4 =
      map (\<lambda>r. AList.update ''year'' (dt_year_cell (cell_at r ''publish_time'')) r) (rows df3)"
    unfolding pt3 by (rule rows_setitem_map)
  have ab: "ab = map (\<lambda>r. cell_at r ''abstract'') (rows df3)"
    using ga by (simp add: getitem_Inr r4 cell_at_update comp_def)
  have "list_all2 (\<lambda>x y. word_count x = Inr y) (fillna (Str []) ab) wc"
    using ap by (rule apply_series_Inr)
  then have "list_all2 (\<lambda>c y. is_text_or_missing c \<and> y = Num (int (length (py_split (text_of c))))) ab wc"
    by (simp add: fillna_def list_all2_map1 word_count_fill)
  then have wc: "wc = map (\<lambda>c. Num (int (length (py_split (text_of c))))) ab"
    and tm: "list_all is_text_or_missing ab"
    by (auto dest: list_all2_fun)
  have wc': "wc = map (\<lambda>r. Num (int (length (py_split (text_of (cell_at r ''abstract''))))))
                  (rows ?df4)"
    by (simp add: wc ab r4 comp_def cell_at_update)
  show "rows out = map derive_row (pass2 parse df0)"
    unfolding out wc' rows_setitem_map
    by (simp add: r4 comp_def derive_row_def cell_at_update r3)
  show "list_all (\<lambda>r. is_text_or_missing (cell_at r ''abstract'')) (pass2 parse df0)"
    using tm by (simp add: ab r3 list_all_iff)
  have "ys = map (\<lambda>r. cell_at r ''year'') (rows out)"
    using gy by (simp add: getitem_Inr)
  then show "log = [Dropped (int (length (rows df0)) - int (length (pass1 df0))),
            FinalShape (length (rows out)) (length (columns out)),
            YearRange (series_min (map (\<lambda>r. cell_at r ''year'') (rows out)))
                      (series_max (map (\<lambda>r. cell_at r ''year'') (rows out)))]"
    using lg by (simp add: r1)
qed

lemma clean_columns:
  assumes "clean parse df0 = Inr (out, log)"
  shows "{''title'', ''publish_time'', ''abstract''} \<subseteq> set (columns df0)"
    and "columns out =
           (let cs = (if ''year'' \<in> set (columns df0) then columns df0 else columns df0 @ [''year''])
            in if ''abstract_word_count'' \<in> set cs then cs else cs @ [''abstract_word_count''])"
proof -
  from assms obtain df1 pt df3 pt3 ab wc ys where
    d1: "dropna [''title'', ''publish_time''] df0 = Inr df1" and
    d3: "dropna [''publish_time''] (setitem ''publish_time'' (to_datetime parse pt) df1) = Inr df3" and
    ga: "getitem ''abstract'' (setitem ''year'' (dt_year pt3) df3) = Inr ab" and
    out: "out = setitem ''abstract_word_count'' wc (setitem ''year'' (dt_year pt3) df3)"
    by (rule cleanE)
  have c1: "columns df1 = columns df0" and in1: "''title'' \<in> set (columns df0)"
    "''publish_time'' \<in> set (columns df0)"
    using d1 by (simp_all add: dropna_Inr)
  have c3: "columns df3 = columns df0"
    using d3 by (simp add: dropna_Inr columns_setitem c1 in1)
  have "''abstract'' \<in> set (columns (setitem ''year'' (dt_year pt3) df3))"
    using ga by (simp add: getitem_Inr)
  then have "''abstract'' \<in> set (columns df0)"
    by (simp add: columns_setitem c3 split: if_splits)
  with in1 show "{''title'', ''publish_time'', ''abstract''} \<subseteq> set (columns df0)"
    by simp
  show "columns out =
           (let cs = (if ''year'' \<in> set (columns df0) then columns df0 else columns df0 @ [''year''])
            in if ''abstract_word_count'' \<in> set cs then cs else cs @ [''abstract_word_count''])"
    by (simp add: out columns_setitem c3 Let_def)
qed

text \<open>A row of \<open>pass2\<close> comes from a row of \<open>pass1\<close> whose publish_time parsed.\<close>

lemma pass2_row:
  assumes "r \<in> set (pass2 parse df)"
  obtains r0 t where "r0 \<in> set (rows df)" "keep_pass1 r0"
    "parse (publish_times df) (cell_at r0 ''publish_time'') = Some t"
    "r = AList.update ''publish_time'' (Timestamp t) r0"
proof -
  from assms obtain r0 where r0: "r0 \<in> set (pass1 df)"
    and r: "r = parse_row parse (publish_times df) r0"
    and nn: "\<not> isna (cell_at r ''publish_time'')"
    by (auto simp: pass2_def)
  from r0 have k: "keep_pass1 r0" and m: "r0 \<in> set (rows df)"
    by (simp_all add: pass1_def)
  from nn obtain t where t: "parse (publish_times df) (cell_at r0 ''publish_time'') = Some t"
    by (cases "parse (publish_times df) (cell_at r0 ''publish_time'')")
       (auto simp: r parse_row_def cell_at_update to_datetime_cell_def split: if_splits)
  with k have "r = AList.update ''publish_time'' (Timestamp t) r0"
    by (simp add: r parse_row_def to_datetime_cell_def keep_pass1_def)
  with m k t show ?thesis by (rule that)
qed

section \<open>Splitting on whitespace\<close>

lemma length_split_ws:
  "length (split_ws cur s) = count_tokens (cur \<noteq> []) s + (if cur = [] then 0 else 1)"
  by (induction cur s rule: split_ws.induct) auto

lemma length_py_split: "length (py_split s) = count_tokens False s"
  by (simp add: py_split_def length_split_ws)

lemma split_ws_all_space: "\<forall>c\<in>set s. py_isspace c \<Longrightarrow> split_ws [] s = []"
  by (induction s) auto

lemma py_split_all_space: "\<forall>c\<in>set s. py_isspace c \<Longrightarrow> py_split s = []"
  by (simp add: py_split_def split_ws_all_space)

lemma concat_split_ws:
  "concat (split_ws cur s) = cur @ filter (\<lambda>c. \<not> py_isspace c) s"
proof (induction s arbitrary: cur)
  case Nil
  then show ?case by simp
next
  case (Cons c cs)
  then show ?case by simp
qed

lemma split_ws_token:
  "t \<in> set (split_ws cur s) \<Longrightarrow> \<forall>c\<in>set cur. \<not> py_isspace c \<Longrightarrow>
     t \<noteq> [] \<and> (\<forall>c\<in>set t. \<not> py_isspace c)"
proof (induction s arbitrary: cur)
  case Nil
  then show ?case by (simp split: if_splits)
next
  case (Cons c cs)
  show ?case
  proof (cases "py_isspace c")
    case True
    with Cons.prems have "t = cur \<and> cur \<noteq> [] \<or> t \<in> set (split_ws [] cs)"
      by (simp split: if_splits)
    then show ?thesis
      using Cons.IH [of "[]"] Cons.prems(2) by auto
  next
    case False
    with Cons.prems have "t \<in> set (split_ws (cur @ [c]) cs)" by simp
    then show ?thesis
      using Cons.IH [of "cur @ [c]"] Cons.prems(2) False by simp
  qed
qed

text \<open>
  The tokens of \<open>py_split\<close> are the maximal runs without whitespace: none is empty,
  none holds a whitespace code point, and together they are the text without its
  whitespace.
\<close>

lemma py_split_tokens:
  "concat (py_split s) = filter (\<lambda>c. \<not> py_isspace c) s"
  "t \<in> set (py_split s) \<Longrightarrow> t \<noteq> [] \<and> (\<forall>c\<in>set t. \<not> py_isspace c)"
  by (simp_all add: py_split_def concat_split_ws split_ws_token)

section \<open>When the cleaner returns\<close>

lemma dropna_ok:
  "set cs \<subseteq> set (columns df) \<Longrightarrow>
   dropna cs df = Inr (df\<lparr>rows := filter (\<lambda>r. list_all (\<lambda>c. \<not> isna (cell_at r c)) cs) (rows df)\<rparr>)"
  by (simp add: dropna_Inr)

lemma clean_total:
  assumes cols: "{''title'', ''publish_time'', ''abstract''} \<subseteq> set (columns raw)"
    and tx: "list_all (\<lambda>r. is_text_or_missing (cell_at r ''abstract'')) (pass2 parse raw)"
  shows "\<exists>out log. clean parse raw = Inr (out, log)"
proof -
  define df1 where "df1 = raw\<lparr>rows := pass1 raw\<rparr>"
  have d1: "dropna [''title'', ''publish_time''] raw = Inr df1"
    using cols by (simp add: dropna_ok df1_def pass1_def keep_pass1_def[abs_def])
  define pt where "pt = map (\<lambda>r. cell_at r ''publish_time'') (rows df1)"
  have g1: "getitem ''publish_time'' df1 = Inr pt"
    using cols by (simp add: getitem_def df1_def pt_def)
  define df2 where "df2 = setitem ''publish_time'' (to_datetime parse pt) df1"
  have td: "to_datetime parse pt =
      map (\<lambda>r. to_datetime_cell parse pt (cell_at r ''publish_time'')) (rows df1)"
    by (simp add: to_datetime_def pt_def)
  have r2: "rows df2 = map (parse_row parse pt) (rows df1)"
    unfolding df2_def td rows_setitem_map by (simp add: parse_row_def[abs_def])
  have c2: "columns df2 = columns raw"
    using cols by (simp add: df2_def columns_setitem df1_def)
  define df3 where "df3 = df2\<lparr>rows := filter (\<lambda>r. \<not> isna (cell_at r ''publish_time'')) (rows df2)\<rparr>"
  have d3: "dropna [''publish_time''] df2 = Inr df3"
    using cols by (simp add: dropna_ok c2 df3_def)
  have r3: "rows df3 = pass2 parse raw"
    by (simp add: df3_def r2 pass2_def publish_times_def) (simp add: pt_def df1_def)
  define pt3 where "pt3 = map (\<lambda>r. cell_at r ''publish_time'') (rows df3)"
  have g3: "getitem ''publish_time'' df3 = Inr pt3"
    using cols by (simp add: getitem_def df3_def c2 pt3_def)
  define df4 where "df4 = setitem ''year'' (dt_year pt3) df3"
  have r4: "rows df4 =
      map (\<lambda>r. AList.update ''year'' (dt_year_cell (cell_at r ''publish_time'')) r) (rows df3)"
    unfolding df4_def pt3_def dt_year_def map_map comp_def by (rule rows_setitem_map)
  define ab where "ab = map (\<lambda>r. cell_at r ''abstract'') (rows df4)"
  have ga: "getitem ''abstract'' df4 = Inr ab"
    using cols by (simp add: getitem_def df4_def columns_setitem df3_def c2 ab_def)
  have "list_all is_text_or_missing ab"
    using tx by (simp add: ab_def r4 r3 list_all_iff cell_at_update)
  then have "list_all (\<lambda>c. word_count c = Inr (Num (int (length (py_split (text_of c))))))
      (fillna (Str []) ab)"
    by (auto simp: fillna_def list_all_iff is_text_or_missing_def text_of_def split: cell.splits)
  then obtain wc where ap: "apply_series word_count (fillna (Str []) ab) = Inr wc"
    by (auto dest: apply_series_total)
  define df5 where "df5 = setitem ''abstract_word_count'' wc df4"
  have "''year'' \<in> set (columns df5)"
    by (simp add: df5_def df4_def columns_setitem)
  then obtain ys where gy: "getitem ''year'' df5 = Inr ys"
    by (simp add: getitem_def)
  show ?thesis
    unfolding clean_def Let_def
    by (simp add: d1 g1 d3[unfolded df2_def] g3 ga[unfolded df4_def] ap
        gy[unfolded df5_def df4_def])
qed

lemma pass2_eq:
  "pass2 parse raw =
     map (parse_row parse (publish_times raw))
       (filter (\<lambda>r. parse (publish_times raw) (cell_at r ''publish_time'') \<noteq> None) (pass1 raw))"
  unfolding pass2_def filter_map
  by (rule arg_cong [where f = "map (parse_row parse (publish_times raw))"], rule filter_cong)
     (auto simp: pass1_def keep_pass1_def parse_row_def cell_at_update to_datetime_cell_def
        split: option.splits)

lemma keys_update_present:
  "k \<in> set (map fst r) \<Longrightarrow> map fst (AList.update k v r) = map fst r"
  by (simp add: update_keys)

lemma keys_update_absent:
  "k \<notin> set (map fst r) \<Longrightarrow> map fst (AList.update k v r) = map fst r @ [k]"
  by (simp add: update_keys)

lemma year_cleaned:
  "clean iso_parser year_raw = Inr (year_clean, year_log)"
  by (simp add: clean_def year_raw_def year_clean_def year_log_def
      dropna_def getitem_def setitem_def cell_at_def to_datetime_def
      to_datetime_cell_def iso_parser_def iso_date_def ustr_def digit_def days_in_month_def
      leap_year_def dt_year_def fillna_def py_split_def py_isspace_def series_min_def
      series_max_def)

lemma scenario_cleaned:
  "clean iso_parser scenario_raw = Inr (scenario_clean, scenario_log)"
  by (simp add: clean_def scenario_raw_def scenario_clean_def scenario_log_def scenario_row_def
      scenario_columns_def dropna_def getitem_def setitem_def cell_at_def to_datetime_def
      to_datetime_cell_def iso_parser_def iso_date_def ustr_def digit_def days_in_month_def
      leap_year_def dt_year_def fillna_def py_split_def py_isspace_def series_min_def
      series_max_def)

lemma papers_cleaned:
  "clean iso_parser papers_raw = Inr (papers_clean, papers_log)"
  by (simp add: clean_def papers_raw_def papers_clean_def papers_log_def paper_def day_def
      cleaned_paper_def paper1_def paper2_def paper3_def paper4_def paper5_def
      scenario_columns_def dropna_def getitem_def setitem_def cell_at_def to_datetime_def
      to_datetime_cell_def iso_parser_def iso_date_def ustr_def digit_def days_in_month_def
      leap_year_def dt_year_def fillna_def py_split_def py_isspace_def series_min_def
      series_max_def)

lemma papers_years:
  "cell_at paper1 ''year'' = Num 2019" "cell_at paper2 ''year'' = Num 2021"
  "cell_at paper3 ''year'' = Num 2019" "cell_at paper4 ''year'' = Num 2021"
  "cell_at paper5 ''year'' = Num 2021"
  by (simp_all add: paper1_def paper2_def paper3_def paper4_def paper5_def cleaned_paper_def
      paper_def cell_at_def)

lemma papers_abstracts:
  "cell_at paper2 ''abstract'' = NaN" "cell_at paper2 ''abstract_word_count'' = Num 0"
  "cell_at paper3 ''abstract'' = Str (ustr ''   '')" "cell_at paper3 ''abstract_word_count'' = Num 0"
  "cell_at paper5 ''abstract'' = Str (ustr ''w x y z'')" "cell_at paper5 ''abstract_word_count'' = Num 4"
  by (simp_all add: paper2_def paper3_def paper5_def cleaned_paper_def paper_def cell_at_def)

lemma papers_pass2_abstracts:
  "map (\<lambda>r. cell_at r ''abstract'') (pass2 iso_parser papers_raw) =
     [Str (ustr ''a b''), NaN, Str (ustr ''   ''), Str (ustr ''one''), Str (ustr ''w x y z'')]"
  by (simp add: pass2_def pass1_def publish_times_def keep_pass1_def parse_row_def papers_raw_def
      paper_def cell_at_def to_datetime_cell_def iso_parser_def iso_date_def ustr_def digit_def
      days_in_month_def leap_year_def)

section \<open>The cleaner's invariants\<close>

text \<open>
  C1. Every row the cleaner retains has a title that is not missing and a publish_time
  that is an instant obtained by parsing the publish_time of a raw row with the same
  title, and its year cell is the integer year of that instant.
\<close>

theorem retained_rows_have_title_date_year:
  assumes "clean parse raw = Inr (out, log)" and "r \<in> set (rows out)"
  shows "\<not> isna (cell_at r ''title'') \<and>
         (\<exists>t. cell_at r ''publish_time'' = Timestamp t \<and>
              cell_at r ''year'' = Num (ts_year t) \<and>
              (\<exists>r0 \<in> set (rows raw). \<exists>col.
                  cell_at r0 ''title'' = cell_at r ''title'' \<and>
                  \<not> isna (cell_at r0 ''publish_time'') \<and>
                  parse col (cell_at r0 ''publish_time'') = Some t))"
proof -
  from assms obtain r2 where r2: "r2 \<in> set (pass2 parse raw)" and r: "r = derive_row r2"
    by (auto simp: clean_rows(1))
  from r2 obtain r0 t where r0: "r0 \<in> set (rows raw)" and k: "keep_pass1 r0"
    and t: "parse (publish_times raw) (cell_at r0 ''publish_time'') = Some t"
    and r2': "r2 = AList.update ''publish_time'' (Timestamp t) r0"
    by (rule pass2_row)
  have ti: "cell_at r ''title'' = cell_at r0 ''title''"
    and pt: "cell_at r ''publish_time'' = Timestamp t"
    and yr: "cell_at r ''year'' = Num (ts_year t)"
    by (simp_all add: r r2' derive_row_def cell_at_update)
  from k have "\<not> isna (cell_at r0 ''title'')" "\<not> isna (cell_at r0 ''publish_time'')"
    by (simp_all add: keep_pass1_def)
  with ti pt yr r0 t show ?thesis by auto
qed

theorem retained_rows_have_title_date_year_witness:
  "clean iso_parser scenario_raw = Inr (scenario_clean, scenario_log) \<and>
   scenario_row \<in> set (rows scenario_clean) \<and>
   \<not> isna (cell_at scenario_row ''title'') \<and>
   (\<exists>t. cell_at scenario_row ''publish_time'' = Timestamp t \<and>
        cell_at scenario_row ''year'' = Num (ts_year t) \<and>
        (\<exists>r0 \<in> set (rows scenario_raw). \<exists>col.
            cell_at r0 ''title'' = cell_at scenario_row ''title'' \<and>
            \<not> isna (cell_at r0 ''publish_time'') \<and>
            iso_parser col (cell_at r0 ''publish_time'') = Some t))"
proof -
  have m: "scenario_row \<in> set (rows scenario_clean)"
    by (simp add: scenario_clean_def)
  show ?thesis
    using retained_rows_have_title_date_year [OF scenario_cleaned m] scenario_cleaned m
    by simp
qed

text \<open>
  C4. A missing abstract does not stop the cleaner and does not drop the row: on every
  raw table that has the columns title, publish_time and abstract and whose rows
  surviving the two drop passes have an abstract that is a text or missing, the
  cleaner returns a table with one row for each surviving row, in order, with the
  abstract that row has. In every row of the cleaned table abstract_word_count is
  the number of whitespace-delimited tokens of the abstract, a missing abstract
  counting as the empty text: it is the length of \<open>split()\<close>, which is the number of
  token starts. It is 0 for a missing abstract and for an abstract of whitespace
  only, and never negative.
\<close>

theorem abstract_word_count_is_token_count:
  assumes cols: "{''title'', ''publish_time'', ''abstract''} \<subseteq> set (columns raw)"
    and tx: "list_all (\<lambda>r. is_text_or_missing (cell_at r ''abstract'')) (pass2 parse raw)"
  shows "\<exists>out log.
           clean parse raw = Inr (out, log) \<and>
           length (rows out) = length (pass2 parse raw) \<and>
           list_all2 (\<lambda>r2 r. cell_at r ''abstract'' = cell_at r2 ''abstract'' \<and>
                             cell_at r ''title'' = cell_at r2 ''title'')
             (pass2 parse raw) (rows out) \<and>
           (\<forall>r \<in> set (rows out).
              is_text_or_missing (cell_at r ''abstract'') \<and>
              cell_at r ''abstract_word_count'' =
                Num (int (length (py_split (text_of (cell_at r ''abstract''))))) \<and>
              length (py_split (text_of (cell_at r ''abstract''))) =
                count_tokens False (text_of (cell_at r ''abstract'')) \<and>
              (isna (cell_at r ''abstract'') \<longrightarrow> cell_at r ''abstract_word_count'' = Num 0) \<and>
              ((\<forall>c \<in> set (text_of (cell_at r ''abstract'')). py_isspace c) \<longrightarrow>
                 cell_at r ''abstract_word_count'' = Num 0) \<and>
              (\<exists>n. cell_at r ''abstract_word_count'' = Num n \<and> 0 \<le> n))"
proof -
  from clean_total [OF cols tx] obtain out log where c: "clean parse raw = Inr (out, log)"
    by blast
  have ro: "rows out = map derive_row (pass2 parse raw)"
    by (rule clean_rows(1) [OF c])
  have len: "length (rows out) = length (pass2 parse raw)"
    by (simp add: ro)
  have same: "list_all2 (\<lambda>r2 r. cell_at r ''abstract'' = cell_at r2 ''abstract'' \<and>
                             cell_at r ''title'' = cell_at r2 ''title'')
             (pass2 parse raw) (rows out)"
    unfolding ro list_all2_map2
    by (simp add: list_all2_same derive_row_def cell_at_update)
  have row: "is_text_or_missing (cell_at r ''abstract'') \<and>
      cell_at r ''abstract_word_count'' =
        Num (int (length (py_split (text_of (cell_at r ''abstract''))))) \<and>
      length (py_split (text_of (cell_at r ''abstract''))) =
        count_tokens False (text_of (cell_at r ''abstract'')) \<and>
      (isna (cell_at r ''abstract'') \<longrightarrow> cell_at r ''abstract_word_count'' = Num 0) \<and>
      ((\<forall>c \<in> set (text_of (cell_at r ''abstract'')). py_isspace c) \<longrightarrow>
         cell_at r ''abstract_word_count'' = Num 0) \<and>
      (\<exists>n. cell_at r ''abstract_word_count'' = Num n \<and> 0 \<le> n)"
    if "r \<in> set (rows out)" for r
  proof -
    from that obtain r2 where r2: "r2 \<in> set (pass2 parse raw)" and r: "r = derive_row r2"
      by (auto simp: ro)
    have ab: "cell_at r ''abstract'' = cell_at r2 ''abstract''"
      by (simp add: r derive_row_def cell_at_update)
    have wc: "cell_at r ''abstract_word_count'' =
        Num (int (length (py_split (text_of (cell_at r ''abstract'')))))"
      by (simp add: r derive_row_def cell_at_update)
    have tm: "is_text_or_missing (cell_at r ''abstract'')"
      using tx r2 by (simp add: ab list_all_iff)
    have na: "isna (cell_at r ''abstract'') \<longrightarrow> text_of (cell_at r ''abstract'') = []"
      by (cases "cell_at r ''abstract''") (simp_all add: text_of_def)
    have em: "py_split [] = []"
      by (simp add: py_split_def)
    have ws: "(\<forall>c \<in> set (text_of (cell_at r ''abstract'')). py_isspace c) \<longrightarrow>
        py_split (text_of (cell_at r ''abstract'')) = []"
      by (simp add: py_split_all_space)
    have lt: "length (py_split (text_of (cell_at r ''abstract''))) =
        count_tokens False (text_of (cell_at r ''abstract''))"
      by (rule length_py_split)
    from na em have z: "isna (cell_at r ''abstract'') \<longrightarrow> cell_at r ''abstract_word_count'' = Num 0"
      by (simp add: wc)
    from ws have w0: "(\<forall>c \<in> set (text_of (cell_at r ''abstract'')). py_isspace c) \<longrightarrow>
        cell_at r ''abstract_word_count'' = Num 0"
      by (simp add: wc)
    have nn: "\<exists>n. cell_at r ''abstract_word_count'' = Num n \<and> 0 \<le> n"
      by (simp add: wc)
    from tm wc lt z w0 nn show ?thesis by blast
  qed
  from c len same row show ?thesis by blast
qed

theorem abstract_word_count_is_token_count_witness:
  "{''title'', ''publish_time'', ''abstract''} \<subseteq> set (columns papers_raw) \<and>
   list_all (\<lambda>r. is_text_or_missing (cell_at r ''abstract'')) (pass2 iso_parser papers_raw) \<and>
   clean iso_parser papers_raw = Inr (papers_clean, papers_log) \<and>
   length (pass2 iso_parser papers_raw) = 5 \<and>
   paper2 \<in> set (rows papers_clean) \<and>
   cell_at paper2 ''abstract'' = NaN \<and>
   cell_at paper2 ''abstract_word_count'' = Num 0 \<and>
   cell_at paper3 ''abstract'' = Str (ustr ''   '') \<and>
   cell_at paper3 ''abstract_word_count'' = Num 0 \<and>
   cell_at paper5 ''abstract'' = Str (ustr ''w x y z'') \<and>
   cell_at paper5 ''abstract_word_count'' = Num (int (count_tokens False (ustr ''w x y z''))) \<and>
   count_tokens False (ustr ''w x y z'') = 4"
proof -
  have cols: "{''title'', ''publish_time'', ''abstract''} \<subseteq> set (columns papers_raw)"
    by (simp add: papers_raw_def scenario_columns_def)
  have "list_all is_text_or_missing (map (\<lambda>r. cell_at r ''abstract'') (pass2 iso_parser papers_raw))"
    unfolding papers_pass2_abstracts by (simp add: is_text_or_missing_def)
  then have tx: "list_all (\<lambda>r. is_text_or_missing (cell_at r ''abstract''))
      (pass2 iso_parser papers_raw)"
    by (simp add: list_all_iff)
  from abstract_word_count_is_token_count [OF cols tx] obtain out log where
    c: "clean iso_parser papers_raw = Inr (out, log)" and
    l: "length (rows out) = length (pass2 iso_parser papers_raw)" and
    r: "\<forall>r \<in> set (rows out).
          cell_at r ''abstract_word_count'' =
            Num (int (length (py_split (text_of (cell_at r ''abstract''))))) \<and>
          length (py_split (text_of (cell_at r ''abstract''))) =
            count_tokens False (text_of (cell_at r ''abstract'')) \<and>
          (isna (cell_at r ''abstract'') \<longrightarrow> cell_at r ''abstract_word_count'' = Num 0) \<and>
          ((\<forall>c \<in> set (text_of (cell_at r ''abstract'')). py_isspace c) \<longrightarrow>
             cell_at r ''abstract_word_count'' = Num 0)"
    by blast
  from c have out: "out = papers_clean" by (simp add: papers_cleaned)
  have m: "paper2 \<in> set (rows papers_clean)" "paper3 \<in> set (rows papers_clean)"
    "paper5 \<in> set (rows papers_clean)"
    by (simp_all add: papers_clean_def)
  have l5: "length (pass2 iso_parser papers_raw) = 5"
    using l by (simp add: out papers_clean_def)
  from r m(1) have "isna (cell_at paper2 ''abstract'') \<longrightarrow>
      cell_at paper2 ''abstract_word_count'' = Num 0"
    unfolding out by blast
  then have w2: "cell_at paper2 ''abstract_word_count'' = Num 0"
    by (simp add: papers_abstracts(1))
  have sp: "\<forall>c \<in> set (text_of (cell_at paper3 ''abstract'')). py_isspace c"
    by (simp add: papers_abstracts(3) text_of_def ustr_def py_isspace_def)
  from r m(2) have "(\<forall>c \<in> set (text_of (cell_at paper3 ''abstract'')). py_isspace c) \<longrightarrow>
      cell_at paper3 ''abstract_word_count'' = Num 0"
    unfolding out by blast
  with sp have w3: "cell_at paper3 ''abstract_word_count'' = Num 0"
    by blast
  from r m(3) have "cell_at paper5 ''abstract_word_count'' =
        Num (int (length (py_split (text_of (cell_at paper5 ''abstract''))))) \<and>
      length (py_split (text_of (cell_at paper5 ''abstract''))) =
        count_tokens False (text_of (cell_at paper5 ''abstract''))"
    unfolding out by blast
  then have w5: "cell_at paper5 ''abstract_word_count'' =
      Num (int (count_tokens False (ustr ''w x y z'')))"
    by (simp add: papers_abstracts(5) text_of_def)
  have ct: "count_tokens False (ustr ''w x y z'') = 4"
    by (simp add: ustr_def py_isspace_def)
  from cols tx papers_cleaned l5 m(1) papers_abstracts(1) w2 papers_abstracts(3) w3
    papers_abstracts(5) w5 ct
  show ?thesis by simp
qed

text \<open>
  C2, as the code has it. The cleaner drops rows in two passes: first the rows with a
  missing title or publish_time, then, after the conversion, the rows whose
  publish_time did not parse, which are exactly the rows of the first pass on which
  the parser fails. A failed parse never raises: the cleaner fails only when one of
  the columns title, publish_time, abstract is absent or a surviving abstract is
  neither a text nor missing. The one count it prints is the count of the first pass;
  the rows dropped altogether are that count plus the rows dropped by the second pass.
\<close>

theorem two_drop_passes_first_is_reported:
  "case clean parse raw of
     Inl e \<Rightarrow>
       \<not> ({''title'', ''publish_time'', ''abstract''} \<subseteq> set (columns raw) \<and>
          list_all (\<lambda>r. is_text_or_missing (cell_at r ''abstract'')) (pass2 parse raw))
   | Inr (out, log) \<Rightarrow>
       rows out = map derive_row (pass2 parse raw) \<and>
       length (pass2 parse raw) =
         length (filter (\<lambda>r. parse (publish_times raw) (cell_at r ''publish_time'') \<noteq> None)
                   (pass1 raw)) \<and>
       [d. Dropped d \<leftarrow> log] = [int (length (rows raw)) - int (length (pass1 raw))] \<and>
       int (length (rows raw)) - int (length (rows out)) =
         (int (length (rows raw)) - int (length (pass1 raw))) +
         (int (length (pass1 raw)) - int (length (pass2 parse raw)))"
proof (cases "clean parse raw")
  case (Inl e)
  then show ?thesis using clean_total [of raw parse] by auto
next
  case (Inr p)
  obtain out log where p: "p = (out, log)" by (cases p)
  note c = Inr [unfolded p]
  have "filter (\<lambda>r. \<not> isna (cell_at r ''publish_time''))
          (map (parse_row parse (publish_times raw)) (pass1 raw)) =
        map (parse_row parse (publish_times raw))
          (filter (\<lambda>r. parse (publish_times raw) (cell_at r ''publish_time'') \<noteq> None) (pass1 raw))"
    unfolding filter_map
    by (rule arg_cong [where f = "map (parse_row parse (publish_times raw))"], rule filter_cong)
       (auto simp: pass1_def keep_pass1_def parse_row_def cell_at_update to_datetime_cell_def
          split: option.splits)
  then have l2: "length (pass2 parse raw) =
      length (filter (\<lambda>r. parse (publish_times raw) (cell_at r ''publish_time'') \<noteq> None) (pass1 raw))"
    by (simp add: pass2_def)
  have lo: "length (rows out) = length (pass2 parse raw)"
    by (simp add: clean_rows(1) [OF c])
  show ?thesis
    using clean_rows(1) [OF c] l2 lo
    by (simp add: c clean_rows(3) [OF c])
qed

theorem two_drop_passes_first_is_reported_witness:
  "clean iso_parser scenario_raw = Inr (scenario_clean, scenario_log) \<and>
   rows scenario_clean = map derive_row (pass2 iso_parser scenario_raw) \<and>
   length (pass1 scenario_raw) = 2 \<and>
   length (pass2 iso_parser scenario_raw) = 1 \<and>
   [d. Dropped d \<leftarrow> scenario_log] = [1]"
proof -
  have l: "length (rows scenario_clean) = 1" "length (rows scenario_raw) = 3"
    by (simp_all add: scenario_clean_def scenario_raw_def)
  have p1: "length (pass1 scenario_raw) = 2"
    by (simp add: pass1_def scenario_raw_def keep_pass1_def cell_at_def)
  have lg: "[d. Dropped d \<leftarrow> scenario_log] = [1]"
    by (simp add: scenario_log_def)
  show ?thesis
    using two_drop_passes_first_is_reported [where parse = iso_parser and raw = scenario_raw]
    by (simp add: scenario_cleaned l p1 lg)
qed

text \<open>
  C2 as stated fails on the scenario table: one row is dropped by each pass, the cleaner
  prints 1, and the raw table has 2 rows more than the cleaned one.
\<close>

theorem reported_count_is_not_total_counterexample:
  "clean iso_parser scenario_raw = Inr (scenario_clean, scenario_log) \<and>
   Dropped 1 \<in> set scenario_log \<and>
   Dropped 2 \<notin> set scenario_log \<and>
   int (length (rows scenario_raw)) - int (length (rows scenario_clean)) = 2"
  by (simp add: scenario_cleaned) (simp add: scenario_log_def scenario_raw_def scenario_clean_def)

section \<open>What cleaning leaves unchanged\<close>

text \<open>
  C10, as the code has it. For a well-formed raw table that has no column named year or
  abstract_word_count: the cleaned table has the raw columns followed by exactly the
  two new columns year and abstract_word_count; its rows are, in order, made from a
  subsequence of the raw rows; in each of them every raw column other than
  publish_time holds the value it held, and publish_time holds the instant its raw
  value parsed to.
\<close>

theorem cleaning_frame:
  assumes c: "clean parse raw = Inr (out, log)"
    and wf: "well_formed raw"
    and ny: "''year'' \<notin> set (columns raw)"
    and nw: "''abstract_word_count'' \<notin> set (columns raw)"
  shows "columns out = columns raw @ [''year'', ''abstract_word_count''] \<and>
         well_formed out \<and>
         (\<exists>kept. subseq kept (rows raw) \<and>
            list_all2 (\<lambda>r0 r.
               (\<forall>c \<in> set (columns raw). c \<noteq> ''publish_time'' \<longrightarrow> cell_at r c = cell_at r0 c) \<and>
               (\<exists>t. parse (publish_times raw) (cell_at r0 ''publish_time'') = Some t \<and>
                    cell_at r ''publish_time'' = Timestamp t))
              kept (rows out))"
proof -
  let ?ok = "\<lambda>r. parse (publish_times raw) (cell_at r ''publish_time'') \<noteq> None"
  let ?kept = "filter ?ok (pass1 raw)"
  let ?f = "\<lambda>r. derive_row (parse_row parse (publish_times raw) r)"
  have cols: "columns out = columns raw @ [''year'', ''abstract_word_count'']"
    using clean_columns(2) [OF c] ny nw by (simp add: Let_def)
  have pt: "''publish_time'' \<in> set (columns raw)"
    using clean_columns(1) [OF c] by simp
  have ro: "rows out = map ?f ?kept"
    by (simp add: clean_rows(1) [OF c] pass2_eq)
  have sub: "subseq ?kept (rows raw)"
    unfolding pass1_def by (rule subseq_order.order_trans [OF subseq_filter_left subseq_filter_left])
  have keys: "map fst (?f r0) = columns raw @ [''year'', ''abstract_word_count'']"
    if "r0 \<in> set (rows raw)" for r0
  proof -
    from wf that have k: "map fst r0 = columns raw"
      by (simp add: well_formed_def list_all_iff)
    show ?thesis
      using pt ny nw
      by (simp add: derive_row_def parse_row_def update_keys k del: set_map map_map)
  qed
  have sk: "set ?kept \<subseteq> set (rows raw)"
    by (auto simp: pass1_def)
  have wfo: "well_formed out"
    using wf ny nw keys sk
    by (auto simp: well_formed_def cols ro list_all_iff)
  have cells: "(\<forall>c \<in> set (columns raw). c \<noteq> ''publish_time'' \<longrightarrow> cell_at (?f r0) c = cell_at r0 c) \<and>
       (\<exists>t. parse (publish_times raw) (cell_at r0 ''publish_time'') = Some t \<and>
            cell_at (?f r0) ''publish_time'' = Timestamp t)"
    if "r0 \<in> set ?kept" for r0
  proof -
    from that have k: "keep_pass1 r0" and "?ok r0"
      by (simp_all add: pass1_def)
    then obtain t where t: "parse (publish_times raw) (cell_at r0 ''publish_time'') = Some t"
      by auto
    have "cell_at (?f r0) ''publish_time'' = Timestamp t"
      using k t by (simp add: derive_row_def parse_row_def cell_at_update to_datetime_cell_def
          keep_pass1_def)
    moreover have "\<forall>c \<in> set (columns raw). c \<noteq> ''publish_time'' \<longrightarrow> cell_at (?f r0) c = cell_at r0 c"
      using ny nw by (auto simp: derive_row_def parse_row_def cell_at_update)
    ultimately show ?thesis using t by blast
  qed
  have "list_all2 (\<lambda>r0 r.
               (\<forall>c \<in> set (columns raw). c \<noteq> ''publish_time'' \<longrightarrow> cell_at r c = cell_at r0 c) \<and>
               (\<exists>t. parse (publish_times raw) (cell_at r0 ''publish_time'') = Some t \<and>
                    cell_at r ''publish_time'' = Timestamp t))
              ?kept (rows out)"
    unfolding ro list_all2_map2 using cells by (simp add: list_all2_same)
  with sub cols wfo show ?thesis by blast
qed

theorem cleaning_frame_witness:
  "clean iso_parser scenario_raw = Inr (scenario_clean, scenario_log) \<and>
   well_formed scenario_raw \<and>
   ''year'' \<notin> set (columns scenario_raw) \<and>
   ''abstract_word_count'' \<notin> set (columns scenario_raw) \<and>
   columns scenario_clean = columns scenario_raw @ [''year'', ''abstract_word_count''] \<and>
   well_formed scenario_clean"
proof -
  have wf: "well_formed scenario_raw"
    by (simp add: well_formed_def scenario_raw_def scenario_columns_def)
  have ny: "''year'' \<notin> set (columns scenario_raw)"
    and nw: "''abstract_word_count'' \<notin> set (columns scenario_raw)"
    by (simp_all add: scenario_raw_def scenario_columns_def)
  show ?thesis
    using cleaning_frame [OF scenario_cleaned wf ny nw] scenario_cleaned wf ny nw
    by simp
qed

text \<open>
  C10 as stated fails on a raw table that already has a column named year: the cleaner
  adds one column, not two, and overwrites the year the file held.
\<close>

theorem existing_year_column_counterexample:
  "clean iso_parser year_raw = Inr (year_clean, year_log) \<and>
   well_formed year_raw \<and>
   columns year_clean = columns year_raw @ [''abstract_word_count''] \<and>
   cell_at (hd (rows year_raw)) ''year'' = Str (ustr ''1999'') \<and>
   cell_at (hd (rows year_clean)) ''year'' = Num 2020"
  by (simp add: year_cleaned)
     (simp add: year_raw_def year_clean_def well_formed_def cell_at_def)

section \<open>The year filter\<close>

lemma elementwise_total:
  "list_all (\<lambda>x. f x = Inr (g x)) xs \<Longrightarrow> elementwise f xs = Inr (map g xs)"
  by (induction xs) auto

lemma boolean_index_and:
  "boolean_index xs (map2 (\<and>) (map P xs) (map Q xs)) = filter (\<lambda>x. P x \<and> Q x) xs"
  by (induction xs) (auto simp: boolean_index_def)

lemma filter_by_year_numeric:
  assumes col: "''year'' \<in> set (columns df)"
    and num: "list_all year_is_number (rows df)"
  shows "filter_by_year df lo hi = Inr (df\<lparr>rows := filter (in_year_range lo hi) (rows df)\<rparr>)"
proof -
  let ?ys = "map (\<lambda>r. cell_at r ''year'') (rows df)"
  let ?ge = "\<lambda>r. case cell_at r ''year'' of Num y \<Rightarrow> lo \<le> y | _ \<Rightarrow> False"
  let ?le = "\<lambda>r. case cell_at r ''year'' of Num y \<Rightarrow> y \<le> hi | _ \<Rightarrow> False"
  have g: "getitem ''year'' df = Inr ?ys"
    using col by (simp add: getitem_def)
  have "list_all (\<lambda>r. ge_cell lo (cell_at r ''year'') = Inr (?ge r)) (rows df)"
    using num by (auto simp: list_all_iff year_is_number_def split: cell.splits)
  then have m1: "elementwise (ge_cell lo) ?ys = Inr (map ?ge (rows df))"
    using elementwise_total [of "ge_cell lo" "\<lambda>c. case c of Num y \<Rightarrow> lo \<le> y | _ \<Rightarrow> False" ?ys]
    by (simp add: list_all_iff comp_def)
  have "list_all (\<lambda>r. le_cell hi (cell_at r ''year'') = Inr (?le r)) (rows df)"
    using num by (auto simp: list_all_iff year_is_number_def split: cell.splits)
  then have m2: "elementwise (le_cell hi) ?ys = Inr (map ?le (rows df))"
    using elementwise_total [of "le_cell hi" "\<lambda>c. case c of Num y \<Rightarrow> y \<le> hi | _ \<Rightarrow> False" ?ys]
    by (simp add: list_all_iff comp_def)
  have "(\<lambda>r. ?ge r \<and> ?le r) = in_year_range lo hi"
    by (auto simp: in_year_range_def fun_eq_iff split: cell.splits)
  then have "boolean_index (rows df) (map2 (\<and>) (map ?ge (rows df)) (map ?le (rows df))) =
      filter (in_year_range lo hi) (rows df)"
    by (simp only: boolean_index_and)
  then show ?thesis
    by (simp only: filter_by_year_def g m1 m2 sum.case)
qed

lemma clean_year_number:
  assumes "clean parse raw = Inr (t, log)" and "r \<in> set (rows t)"
  shows "\<exists>y. cell_at r ''year'' = Num y"
proof -
  from assms obtain r2 where r2: "r2 \<in> set (pass2 parse raw)" and r: "r = derive_row r2"
    by (auto simp: clean_rows(1))
  from r2 obtain r0 t' where "r2 = AList.update ''publish_time'' (Timestamp t') r0"
    by (rule pass2_row)
  then show ?thesis by (simp add: r derive_row_def cell_at_update)
qed

lemma clean_has_year:
  assumes "clean parse raw = Inr (t, log)"
  shows "''year'' \<in> set (columns t)"
  using clean_columns(2) [OF assms] by (simp add: Let_def)

lemma fold_min_le: "fold min ys (y::int) \<le> z" if "z \<in> set (y # ys)"
proof -
  have "Min (set (y # ys)) = fold min ys y" by (rule Min.set_eq_fold)
  moreover have "Min (set (y # ys)) \<le> z" using that by (intro Min_le) simp_all
  ultimately show ?thesis by simp
qed

lemma fold_max_ge: "z \<le> fold max ys (y::int)" if "z \<in> set (y # ys)"
proof -
  have "Max (set (y # ys)) = fold max ys y" by (rule Max.set_eq_fold)
  moreover have "z \<le> Max (set (y # ys))" using that by (intro Max_ge) simp_all
  ultimately show ?thesis by simp
qed

lemma nums_of_numbers:
  "list_all (\<lambda>c. \<exists>y. c = Num y) col \<Longrightarrow> map Num [y. Num y \<leftarrow> col] = col"
  by (induction col) auto

lemma year_span_bounds:
  assumes sp: "year_span df = Inr (a, b)"
    and num: "\<forall>r \<in> set (rows df). \<exists>y. cell_at r ''year'' = Num y"
    and r: "r \<in> set (rows df)"
  shows "in_year_range a b r"
proof -
  define ys where "ys = map (\<lambda>r. cell_at r ''year'') (rows df)"
  define nums where "nums = [y. Num y \<leftarrow> ys]"
  from sp have "getitem ''year'' df = Inr ys"
    by (auto simp: year_span_def getitem_def ys_def split: if_splits)
  with sp have mn: "series_min ys = Num a" and mx: "series_max ys = Num b"
    by (auto simp: year_span_def split: cell.splits)
  from num r obtain y where y: "cell_at r ''year'' = Num y" by blast
  have "list_all (\<lambda>c. \<exists>y. c = Num y) ys"
    using num by (simp add: list_all_iff ys_def)
  then have "map Num nums = ys" unfolding nums_def by (rule nums_of_numbers)
  moreover have "Num y \<in> set ys" using r y by (force simp: ys_def)
  ultimately have "Num y \<in> set (map Num nums)" by simp
  then have yin: "y \<in> set nums" by auto
  then obtain n ns where ns: "nums = n # ns" by (cases nums) auto
  from mn mx have "a = fold min ns n" "b = fold max ns n"
    by (simp_all add: series_min_def series_max_def ns [unfolded nums_def])
  with yin have "a \<le> y" "y \<le> b"
    using fold_min_le [of y n ns] fold_max_ge [of y n ns] by (simp_all add: ns)
  then show ?thesis by (simp add: in_year_range_def y)
qed

lemma year_span_nonempty:
  assumes col: "''year'' \<in> set (columns df)"
    and num: "\<forall>r \<in> set (rows df). \<exists>y. cell_at r ''year'' = Num y"
    and ne: "rows df \<noteq> []"
  shows "\<exists>a b. year_span df = Inr (a, b)"
proof -
  from ne obtain r rs where rs: "rows df = r # rs" by (cases "rows df") auto
  with num obtain y where "cell_at r ''year'' = Num y" by auto
  then show ?thesis
    using col by (simp add: year_span_def getitem_def rs series_min_def series_max_def)
qed

text \<open>
  C3. In a cleaned table every row has an integer year, and for every pair of bounds
  the year filter returns the table with exactly the rows whose year lies between the
  bounds, both included, in their order. With equal bounds these are the rows of that
  year. With the bounds the application computes, the smallest and the largest year of
  the table, the filter returns the table itself; these bounds exist whenever the
  table has a row.
\<close>

theorem year_filter_is_inclusive:
  assumes "clean parse raw = Inr (t, log)"
  shows "(\<forall>r \<in> set (rows t). \<exists>y. cell_at r ''year'' = Num y) \<and>
         filter_by_year t lo hi = Inr (t\<lparr>rows := filter (in_year_range lo hi) (rows t)\<rparr>) \<and>
         filter_by_year t y y = Inr (t\<lparr>rows := filter (\<lambda>r. cell_at r ''year'' = Num y) (rows t)\<rparr>) \<and>
         (\<forall>a b. year_span t = Inr (a, b) \<longrightarrow> filter_by_year t a b = Inr t) \<and>
         (rows t \<noteq> [] \<longrightarrow> (\<exists>a b. year_span t = Inr (a, b)))"
proof -
  have num: "\<forall>r \<in> set (rows t). \<exists>y. cell_at r ''year'' = Num y"
    using clean_year_number [OF assms] by blast
  have col: "''year'' \<in> set (columns t)"
    using assms by (rule clean_has_year)
  have yn: "list_all year_is_number (rows t)"
    using num by (auto simp: list_all_iff year_is_number_def)
  have f: "filter_by_year t a b = Inr (t\<lparr>rows := filter (in_year_range a b) (rows t)\<rparr>)" for a b
    using col yn by (rule filter_by_year_numeric)
  have "in_year_range y y = (\<lambda>r. cell_at r ''year'' = Num y)"
    by (auto simp: in_year_range_def fun_eq_iff split: cell.splits)
  then have eq: "filter_by_year t y y =
      Inr (t\<lparr>rows := filter (\<lambda>r. cell_at r ''year'' = Num y) (rows t)\<rparr>)"
    using f [of y y] by simp
  have span: "filter_by_year t a b = Inr t" if "year_span t = Inr (a, b)" for a b
  proof -
    have "\<forall>r \<in> set (rows t). in_year_range a b r"
      using year_span_bounds [OF that num] by blast
    then have "filter (in_year_range a b) (rows t) = rows t"
      by (simp add: filter_id_conv)
    then show ?thesis by (simp add: f)
  qed
  have ne: "rows t \<noteq> [] \<longrightarrow> (\<exists>a b. year_span t = Inr (a, b))"
    using year_span_nonempty [OF col num] by blast
  from num f [of lo hi] eq span ne show ?thesis by blast
qed

theorem year_filter_is_inclusive_witness:
  "clean iso_parser papers_raw = Inr (papers_clean, papers_log) \<and>
   filter_by_year papers_clean 2019 2019 = Inr (papers_clean\<lparr>rows := [paper1, paper3]\<rparr>) \<and>
   filter_by_year papers_clean 2020 2021 = Inr (papers_clean\<lparr>rows := [paper2, paper4, paper5]\<rparr>) \<and>
   year_span papers_clean = Inr (2019, 2021) \<and>
   filter_by_year papers_clean 2019 2021 = Inr papers_clean"
proof -
  have r: "rows papers_clean = [paper1, paper2, paper3, paper4, paper5]"
    and c: "''year'' \<in> set (columns papers_clean)"
    by (simp_all add: papers_clean_def)
  have sp: "year_span papers_clean = Inr (2019, 2021)"
    by (simp add: year_span_def getitem_def c r papers_years series_min_def series_max_def)
  have a: "filter_by_year papers_clean 2019 2019 = Inr (papers_clean\<lparr>rows := [paper1, paper3]\<rparr>)"
    using year_filter_is_inclusive [OF papers_cleaned, of 2019 2019]
    by (simp add: r papers_years in_year_range_def)
  have b: "filter_by_year papers_clean 2020 2021 =
      Inr (papers_clean\<lparr>rows := [paper2, paper4, paper5]\<rparr>)"
    using year_filter_is_inclusive [OF papers_cleaned, of 2020 2021]
    by (simp add: r papers_years in_year_range_def)
  have d: "filter_by_year papers_clean 2019 2021 = Inr papers_clean"
    using year_filter_is_inclusive [OF papers_cleaned] sp by blast
  from papers_cleaned a b sp d show ?thesis by simp
qed

section \<open>Counting values\<close>


























section \<open>The views on a cleaned table\<close>



lemma clean_has_awc:
  assumes "clean parse raw = Inr (t, log)"
  shows "''abstract_word_count'' \<in> set (columns t)"
  using clean_columns(2) [OF assms] by (simp add: Let_def)

lemma clean_filter_by_year:
  assumes "clean parse raw = Inr (t, log)"
  shows "filter_by_year t lo hi = Inr (t\<lparr>rows := filter (in_year_range lo hi) (rows t)\<rparr>)"
proof (rule filter_by_year_numeric)
  show "''year'' \<in> set (columns t)" using assms by (rule clean_has_year)
  show "list_all year_is_number (rows t)"
    using clean_year_number [OF assms] by (fastforce simp: list_all_iff year_is_number_def)
qed





lemma papers_columns:
  "columns papers_clean =
     [''title'', ''publish_time'', ''abstract'', ''journal'', ''source_x'', ''year'',
      ''abstract_word_count'']"
  "rows papers_clean = [paper1, paper2, paper3, paper4, paper5]"
  by (simp_all add: papers_clean_def scenario_columns_def)


lemma papers_filter_none:
  "filter_by_year papers_clean 2020 2020 = Inr (papers_clean\<lparr>rows := []\<rparr>)"
  using clean_filter_by_year [OF papers_cleaned, of 2020 2020]
  by (simp add: papers_columns papers_years in_year_range_def)









section \<open>The page on an empty subset\<close>













lemma main_shows_views:
  assumes "load_and_clean_data p w = (Inr (Some (t, log)), w')" and "year_span t = Inr (a, b)"
  shows "main p slider w = (show_views p t (slider a b), w')"
  using assms by (simp add: main_def)




section \<open>Fetching and loading\<close>

text \<open>
  The download script on an empty working directory: with valid credentials it
  leaves the file and ends with status 0; the loader then reads and cleans the file.
  Without valid credentials it ends with status 1, \<open>download_dataset\<close> is False and
  the loader returns \<open>None\<close>.
\<close>

lemma script_fetches:
  "run_download_script scenario_platform empty_world = (0, fetched_world)"
  by (simp add: run_download_script_def download_metadata_only_def scenario_platform_def
      empty_world_def fetched_world_def path_exists_def call_remote_def write_file_def
      suffix_to_prefix Let_def)

lemma load_fetches_and_cleans:
  "load_and_clean_data scenario_platform empty_world =
     (Inr (Some (scenario_clean, scenario_log)), fetched_world)"
proof -
  have d: "download_dataset scenario_platform empty_world = (True, fetched_world)"
    by (simp add: download_dataset_def script_fetches)
       (simp add: scenario_platform_def empty_world_def path_exists_def)
  have f: "map_of (files fetched_world) ''metadata.csv'' = Some scenario_bytes"
    by (simp add: fetched_world_def)
  have r: "read_csv scenario_platform scenario_bytes = Inr scenario_raw"
    and q: "parse_datetime scenario_platform = iso_parser"
    by (simp_all add: scenario_platform_def)
  show ?thesis
    by (simp add: load_and_clean_data_def d f r q scenario_cleaned)
qed

lemma failed_authentication_ends_load:
  "download_dataset (scenario_platform\<lparr>credentials_ok := False\<rparr>) empty_world =
     (False, empty_world\<lparr>remote_calls := [Authenticate]\<rparr>) \<and>
   load_and_clean_data (scenario_platform\<lparr>credentials_ok := False\<rparr>) empty_world =
     (Inr None, empty_world\<lparr>remote_calls := [Authenticate]\<rparr>)"
  by (simp add: load_and_clean_data_def download_dataset_def run_download_script_def
      scenario_platform_def empty_world_def path_exists_def call_remote_def)

text \<open>
  C9. When \<open>metadata.csv\<close> exists in the working directory, both entry points of the
  fetcher, \<open>download_metadata_only\<close> and \<open>download_dataset\<close>, return True at once
  and leave the world as it was: no call to the remote host is added and no file is
  written or changed. The loader, which starts with \<open>download_dataset\<close>, leaves the
  world unchanged as well.
\<close>

theorem existing_file_means_no_download:
  assumes "path_exists w ''metadata.csv''"
  shows "download_metadata_only p w = (True, w) \<and>
         download_dataset p w = (True, w) \<and>
         snd (load_and_clean_data p w) = w"
  using assms
  by (auto simp: download_metadata_only_def download_dataset_def load_and_clean_data_def
      split: option.splits sum.splits)

theorem existing_file_means_no_download_witness:
  "path_exists fetched_world ''metadata.csv'' \<and>
   download_metadata_only scenario_platform fetched_world = (True, fetched_world) \<and>
   download_dataset scenario_platform fetched_world = (True, fetched_world) \<and>
   snd (load_and_clean_data scenario_platform fetched_world) = fetched_world"
proof -
  have e: "path_exists fetched_world ''metadata.csv''"
    by (simp add: path_exists_def fetched_world_def)
  from existing_file_means_no_download [OF e, of scenario_platform] e show ?thesis by simp
qed

end
